theory Spec2Isabelle
  imports Main "HOL-Library.Word"
begin

unbundle bit_operations_syntax

section \<open>Errors\<close>

text \<open>
  Go error values. The sentinels are the ones the code compares against or returns
  (\<open>context.Canceled\<close>, \<open>context.DeadlineExceeded\<close>, \<open>io.EOF\<close>,
  \<open>io.ErrUnexpectedEOF\<close>, \<open>io.ErrClosedPipe\<close>); \<open>ErrorsNew\<close> is \<open>errors.New\<close>,
  \<open>Errorf\<close> is \<open>fmt.Errorf\<close> with one \<open>%d\<close> argument, \<open>Errorf_dq\<close> with a
  \<open>%d\<close> and a \<open>%q\<close> argument, \<open>Wrapf\<close> is \<open>fmt.Errorf\<close> with \<open>%w\<close>.
\<close>

datatype go_error =
    Canceled
  | DeadlineExceeded
  | EOF
  | ErrUnexpectedEOF
  | ErrClosedPipe
  | ErrorsNew string
  | Errorf string nat
  | Errorf_dq string nat string
  | Wrapf string go_error

text \<open>\<open>errors.Is\<close>: the error itself or anything on its \<open>Unwrap\<close> chain.\<close>

fun errors_Is :: "go_error \<Rightarrow> go_error \<Rightarrow> bool" where
  "errors_Is (Wrapf m e) target = (Wrapf m e = target \<or> errors_Is e target)"
| "errors_Is e target = (e = target)"

section \<open>Frame codec (websocket client)\<close>

type_synonym byte = "8 word"

definition webSocketHandshakeTimeout :: int where
  "webSocketHandshakeTimeout = 10 * 1000000000"

definition maxWebSocketFrameSize :: nat where
  "maxWebSocketFrameSize = push_bit 20 32"

definition wsOpcodeContinuation :: byte where "wsOpcodeContinuation = 0x0"
definition wsOpcodeText :: byte where "wsOpcodeText = 0x1"
definition wsOpcodeBinary :: byte where "wsOpcodeBinary = 0x2"
definition wsOpcodeClose :: byte where "wsOpcodeClose = 0x8"
definition wsOpcodePing :: byte where "wsOpcodePing = 0x9"
definition wsOpcodePong :: byte where "wsOpcodePong = 0xA"

text \<open>
  The largest \<open>int\<close>, \<open>^uint(0)>>1\<close>, on a 64-bit platform.
\<close>

definition maxInt :: nat where
  "maxInt = 2 ^ 63 - 1"

subsection \<open>The buffered reader\<close>

text \<open>
  \<open>c.reader\<close>: the bytes still to come on the connection, and the error the
  connection reports once they are used up (\<open>io.EOF\<close> for an orderly shutdown, any
  other error for a reset, a timeout or a local close).
\<close>

record reader =
  pending :: "byte list"
  at_end :: go_error

text \<open>
  \<open>io.ReadFull\<close> of \<open>n\<close> bytes (\<open>n > 0\<close> at every call site): all \<open>n\<close> bytes, or
  the reader's error; an \<open>io.EOF\<close> after some but not all bytes is
  \<open>io.ErrUnexpectedEOF\<close>.
\<close>

definition io_ReadFull :: "nat \<Rightarrow> reader \<Rightarrow> (go_error + byte list) \<times> reader" where
  "io_ReadFull n r =
     (if n \<le> length (pending r)
      then (Inr (take n (pending r)), r\<lparr>pending := drop n (pending r)\<rparr>)
      else (Inl (if pending r \<noteq> [] \<and> at_end r = EOF then ErrUnexpectedEOF else at_end r),
            r\<lparr>pending := []\<rparr>))"

text \<open>\<open>binary.BigEndian\<close>.\<close>

definition Uint16 :: "byte list \<Rightarrow> 16 word" where
  "Uint16 b = ucast (b ! 1) OR push_bit 8 (ucast (b ! 0))"

definition Uint64 :: "byte list \<Rightarrow> 64 word" where
  "Uint64 b =
     ucast (b ! 7) OR push_bit 8 (ucast (b ! 6)) OR push_bit 16 (ucast (b ! 5)) OR
     push_bit 24 (ucast (b ! 4)) OR push_bit 32 (ucast (b ! 3)) OR push_bit 40 (ucast (b ! 2)) OR
     push_bit 48 (ucast (b ! 1)) OR push_bit 56 (ucast (b ! 0))"

definition PutUint16 :: "16 word \<Rightarrow> byte list" where
  "PutUint16 v = [ucast (drop_bit 8 v), ucast v]"

definition PutUint64 :: "64 word \<Rightarrow> byte list" where
  "PutUint64 v =
     [ucast (drop_bit 56 v), ucast (drop_bit 48 v), ucast (drop_bit 40 v), ucast (drop_bit 32 v),
      ucast (drop_bit 24 v), ucast (drop_bit 16 v), ucast (drop_bit 8 v), ucast v]"

text \<open>
  The masking loop of \<open>readFrame\<close> and of \<open>buildClientFrame\<close>:
  \<open>payload[i] ^ mask[i%4]\<close> for every index.
\<close>

definition xor_mask :: "byte list \<Rightarrow> byte list \<Rightarrow> byte list" where
  "xor_mask key payload = map (\<lambda>i. payload ! i XOR key ! (i mod 4)) [0..<length payload]"

subsection \<open>The connection\<close>

text \<open>
  \<open>websocketConn\<close>. \<open>conn_open\<close> is \<open>c.conn != nil\<close>. \<open>wire\<close> lists the frames
  handed to \<open>conn.Write\<close>, oldest first; \<open>write_result k\<close> is what the \<open>k\<close>-th call of
  \<open>conn.Write\<close> returns and \<open>rand_Read k\<close> what the \<open>k\<close>-th call of \<open>rand.Read\<close> on a
  4-byte slice returns; \<open>rand_calls\<close> counts the calls made.
\<close>

record websocketConn =
  reader :: reader
  conn_open :: bool
  wire :: "byte list list"
  write_result :: "nat \<Rightarrow> go_error option"
  rand_Read :: "nat \<Rightarrow> go_error + (byte \<times> byte \<times> byte \<times> byte)"
  rand_calls :: nat

definition read_bytes :: "nat \<Rightarrow> websocketConn \<Rightarrow> (go_error + byte list) \<times> websocketConn" where
  "read_bytes n c = (case io_ReadFull n (reader c) of (res, r) \<Rightarrow> (res, c\<lparr>reader := r\<rparr>))"

definition readPayloadLength :: "byte \<Rightarrow> websocketConn \<Rightarrow> (go_error + nat) \<times> websocketConn" where
  "readPayloadLength base c =
     (if base = 126 then
        (case read_bytes 2 c of
           (Inl err, c1) \<Rightarrow> (Inl err, c1)
         | (Inr extended, c1) \<Rightarrow> (Inr (unat (Uint16 extended)), c1))
      else if base = 127 then
        (case read_bytes 8 c of
           (Inl err, c1) \<Rightarrow> (Inl err, c1)
         | (Inr extended, c1) \<Rightarrow>
             (if unat (Uint64 extended) > maxInt
              then (Inl (ErrorsNew ''slack: websocket payload length overflow''), c1)
              else (Inr (unat (Uint64 extended)), c1)))
      else (Inr (unat base), c))"

definition readFrame :: "websocketConn \<Rightarrow> (go_error + byte \<times> bool \<times> byte list) \<times> websocketConn" where
  "readFrame c =
     (case read_bytes 2 c of
        (Inl err, c1) \<Rightarrow> (Inl err, c1)
      | (Inr header, c1) \<Rightarrow>
          let fin = (header ! 0 AND 0x80 \<noteq> 0);
              opcode = header ! 0 AND 0x0F;
              maskBit = (header ! 1 AND 0x80 \<noteq> 0)
          in (case readPayloadLength (header ! 1 AND 0x7F) c1 of
                (Inl err, c2) \<Rightarrow> (Inl err, c2)
              | (Inr payloadLen, c2) \<Rightarrow>
                  if payloadLen > maxWebSocketFrameSize
                  then (Inl (Errorf ''slack: websocket frame too large: %d'' payloadLen), c2)
                  else
                    (case (if maskBit then read_bytes 4 c2 else (Inr [0, 0, 0, 0], c2)) of
                       (Inl err, c3) \<Rightarrow> (Inl err, c3)
                     | (Inr key, c3) \<Rightarrow>
                         (case (if payloadLen > 0 then read_bytes payloadLen c3 else (Inr [], c3)) of
                            (Inl err, c4) \<Rightarrow> (Inl err, c4)
                          | (Inr payload, c4) \<Rightarrow>
                              (Inr (opcode, fin, if maskBit then xor_mask key payload else payload),
                               c4)))))"

text \<open>
  \<open>buildClientFrame\<close>; \<open>rnd\<close> is the outcome of its one call of \<open>rand.Read\<close>.
\<close>

definition buildClientFrame ::
  "byte \<Rightarrow> byte list \<Rightarrow> go_error + (byte \<times> byte \<times> byte \<times> byte) \<Rightarrow> go_error + byte list" where
  "buildClientFrame opcode payload rnd =
     (let payloadLen = length payload;
          frame = [0x80 OR opcode];
          frame = frame @
            (if payloadLen < 126 then [of_nat payloadLen OR 0x80]
             else if payloadLen \<le> 0xFFFF then [126 OR 0x80] @ PutUint16 (of_nat payloadLen)
             else [127 OR 0x80] @ PutUint64 (of_nat payloadLen))
      in case rnd of
           Inl err \<Rightarrow> Inl (Wrapf ''slack: generate websocket mask'' err)
         | Inr (m0, m1, m2, m3) \<Rightarrow>
             Inr (frame @ [m0, m1, m2, m3] @ xor_mask [m0, m1, m2, m3] payload))"

definition writeFrame :: "byte \<Rightarrow> byte list \<Rightarrow> websocketConn \<Rightarrow> go_error option \<times> websocketConn" where
  "writeFrame opcode payload c =
     (if \<not> conn_open c then (Some ErrClosedPipe, c)
      else
        (case buildClientFrame opcode payload (rand_Read c (rand_calls c)) of
           Inl err \<Rightarrow> (Some err, c\<lparr>rand_calls := Suc (rand_calls c)\<rparr>)
         | Inr frame \<Rightarrow>
             (case write_result c (length (wire c)) of
                Some err \<Rightarrow> Some (Wrapf ''slack: write websocket frame'' err)
              | None \<Rightarrow> None,
              c\<lparr>rand_calls := Suc (rand_calls c), wire := wire c @ [frame]\<rparr>)))"

text \<open>
  \<open>readMessage\<close>: the loop over \<open>readFrame\<close>, with its two locals \<open>buffer\<close> and
  \<open>expectContinuation\<close> as arguments. Every decoded frame takes at least the two
  header bytes off the pending input, so the loop ends.
\<close>

function readMessage_loop ::
  "byte list \<Rightarrow> bool \<Rightarrow> websocketConn \<Rightarrow> (go_error + byte list) \<times> websocketConn" where
  "readMessage_loop buffer expectContinuation c =
     (case readFrame c of
        (Inl err, c1) \<Rightarrow> (Inl err, c1)
      | (Inr (opcode, fin, payload), c1) \<Rightarrow>
          if opcode = wsOpcodeText \<or> opcode = wsOpcodeBinary then
            (if expectContinuation
             then (Inl (ErrorsNew ''slack: unexpected websocket data frame''), c1)
             else if fin then (Inr payload, c1)
             else readMessage_loop (buffer @ payload) True c1)
          else if opcode = wsOpcodeContinuation then
            (if \<not> expectContinuation
             then (Inl (ErrorsNew ''slack: unexpected websocket continuation frame''), c1)
             else if fin then (Inr (buffer @ payload), c1)
             else readMessage_loop (buffer @ payload) expectContinuation c1)
          else if opcode = wsOpcodePing then
            (case writeFrame wsOpcodePong payload c1 of
               (Some err, c2) \<Rightarrow> (Inl err, c2)
             | (None, c2) \<Rightarrow> readMessage_loop buffer expectContinuation c2)
          else if opcode = wsOpcodePong then readMessage_loop buffer expectContinuation c1
          else if opcode = wsOpcodeClose then (Inl EOF, c1)
          else (Inl (Errorf ''slack: unsupported websocket opcode=%d'' (unat opcode)), c1))"
  by pat_completeness auto
termination
proof -
  have rb: "\<And>n c res c1. read_bytes n c = (res, c1) \<Longrightarrow>
              length (pending (reader c1)) \<le> length (pending (reader c)) \<and>
              (0 < n \<longrightarrow> (\<exists>x. res = Inr x) \<longrightarrow>
                 length (pending (reader c1)) < length (pending (reader c)))"
    by (auto simp add: read_bytes_def io_ReadFull_def split: if_splits)
  have rf: "\<And>c x c1. readFrame c = (Inr x, c1) \<Longrightarrow>
              length (pending (reader c1)) < length (pending (reader c))"
  proof -
    fix c x c1
    assume a: "readFrame c = (Inr x, c1)"
    obtain res0 c0 where r0: "read_bytes 2 c = (res0, c0)" by (cases "read_bytes 2 c")
    with a obtain header where h: "res0 = Inr header"
      by (cases res0) (auto simp add: readFrame_def)
    from rb[OF r0] h have l0: "length (pending (reader c0)) < length (pending (reader c))"
      by simp
    have rble: "\<And>n c res c1. read_bytes n c = (res, c1) \<Longrightarrow>
              length (pending (reader c1)) \<le> length (pending (reader c))"
      using rb by blast
    have pl: "\<And>b resl cl. readPayloadLength b c0 = (resl, cl) \<Longrightarrow>
                length (pending (reader cl)) \<le> length (pending (reader c0))"
      using rb
      by (fastforce simp add: readPayloadLength_def split: if_splits prod.splits sum.splits)
    from a r0 h have "length (pending (reader c1)) \<le> length (pending (reader c0))"
      by (simp add: readFrame_def Let_def split: prod.splits sum.splits if_splits)
         (meson rble pl le_trans)+
    with l0 show "length (pending (reader c1)) < length (pending (reader c))" by simp
  qed
  have wf: "\<And>op p c r c2. writeFrame op p c = (r, c2) \<Longrightarrow> reader c2 = reader c"
    by (auto simp add: writeFrame_def split: if_splits sum.splits)
  show ?thesis
    by (relation "measure (\<lambda>(buffer, expectContinuation, c). length (pending (reader c)))")
       (auto simp add: rf [OF sym] wf [OF sym])
qed

declare readMessage_loop.simps [simp del]

definition readMessage :: "websocketConn \<Rightarrow> (go_error + byte list) \<times> websocketConn" where
  "readMessage c = readMessage_loop [] False c"

text \<open>
  \<open>frames_arrive c fs\<close>: the successive calls of \<open>readFrame\<close> on \<open>c\<close> decode exactly
  the frames \<open>fs\<close>, each given as (opcode, FIN, payload); the result is the
  connection after the last of them.
\<close>

fun frames_arrive ::
  "websocketConn \<Rightarrow> (byte \<times> bool \<times> byte list) list \<Rightarrow> websocketConn option" where
  "frames_arrive c [] = Some c"
| "frames_arrive c (f # fs) =
     (case readFrame c of
        (Inl err, c1) \<Rightarrow> None
      | (Inr g, c1) \<Rightarrow> if g = f then frames_arrive c1 fs else None)"

section \<open>Contexts and time\<close>

text \<open>
  Instants and durations are integers (nanoseconds, as \<open>time.Duration\<close>). A
  \<open>context.Context\<close> is given by the instant its \<open>cancel\<close> function is called and by
  its deadline, either of which may be absent. \<open>ctx_done_at\<close> is the instant the
  \<open>Done\<close> channel closes, with the error \<open>ctx.Err()\<close> reports from then on
  (whichever of cancellation and deadline comes first).
\<close>

record Context =
  cancelled_at :: "int option"
  Deadline :: "int option"

definition ctx_done_at :: "Context \<Rightarrow> (int \<times> go_error) option" where
  "ctx_done_at ctx =
     (case (cancelled_at ctx, Deadline ctx) of
        (None, None) \<Rightarrow> None
      | (Some tc, None) \<Rightarrow> Some (tc, Canceled)
      | (None, Some td) \<Rightarrow> Some (td, DeadlineExceeded)
      | (Some tc, Some td) \<Rightarrow> if tc \<le> td then Some (tc, Canceled) else Some (td, DeadlineExceeded))"

definition ctx_Err :: "Context \<Rightarrow> int \<Rightarrow> go_error option" where
  "ctx_Err ctx t =
     (case ctx_done_at ctx of
        None \<Rightarrow> None
      | Some (td, err) \<Rightarrow> if td \<le> t then Some err else None)"

section \<open>The websocket handshake\<close>

text \<open>
  What the network and the random source answer during one handshake.
  \<open>sha1\<close> and \<open>base64\<close> stand for \<open>sha1.Sum\<close> and
  \<open>base64.StdEncoding.EncodeToString\<close>.
\<close>

record http_response =
  StatusCode :: nat
  SecWebSocketAccept :: string
  Body :: string

record handshake_env =
  SetDeadline_result :: "go_error option"
  nonce_result :: "go_error + string"
  WriteString_result :: "go_error option"
  ReadResponse_result :: "go_error + http_response"
  sha1 :: "string \<Rightarrow> string"
  base64 :: "string \<Rightarrow> string"

definition wsAcceptKey :: "handshake_env \<Rightarrow> string \<Rightarrow> string" where
  "wsAcceptKey env secWebSocketKey =
     base64 env (sha1 env (secWebSocketKey @ ''258EAFA5-E914-47DA-95CA-C5AB0DC85B11''))"

text \<open>
  \<open>websocketClientHandshake\<close> called at instant \<open>now\<close>: the deadline it passes to
  \<open>conn.SetDeadline\<close>, and its error (\<open>None\<close> when it returns the connection).
\<close>

definition websocketClientHandshake ::
  "Context \<Rightarrow> int \<Rightarrow> handshake_env \<Rightarrow> int \<times> go_error option" where
  "websocketClientHandshake ctx now env =
     (let deadline = now + webSocketHandshakeTimeout;
          deadline = (case Deadline ctx of Some d \<Rightarrow> d | None \<Rightarrow> deadline)
      in (deadline,
          case SetDeadline_result env of
            Some err \<Rightarrow> Some (Wrapf ''slack: set handshake deadline'' err)
          | None \<Rightarrow>
             (case nonce_result env of
                Inl err \<Rightarrow> Some (Wrapf ''slack: generate websocket nonce'' err)
              | Inr nonce \<Rightarrow>
                 (let secWebSocketKey = base64 env nonce
                  in case WriteString_result env of
                       Some err \<Rightarrow> Some (Wrapf ''slack: send websocket handshake'' err)
                     | None \<Rightarrow>
                        (case ReadResponse_result env of
                           Inl err \<Rightarrow> Some (Wrapf ''slack: read websocket handshake response'' err)
                         | Inr resp \<Rightarrow>
                            if StatusCode resp \<noteq> 101
                            then Some (Errorf_dq ''slack: websocket handshake failed status=%d body=%q''
                                         (StatusCode resp) (Body resp))
                            else if SecWebSocketAccept resp \<noteq> wsAcceptKey env secWebSocketKey
                            then Some (ErrorsNew
                                   ''slack: websocket handshake failed: invalid Sec-WebSocket-Accept'')
                            else None)))))"

section \<open>Socket mode: events, acknowledgements, connections\<close>

text \<open>
  Go strings that reach \<open>strings.TrimSpace\<close> are lists of runes (code points):
  \<open>json.Unmarshal\<close> yields valid UTF-8, and \<open>TrimSpace\<close> works rune by rune with
  \<open>unicode.IsSpace\<close>.
\<close>

type_synonym rune = nat
type_synonym gostring = "rune list"

definition IsSpace :: "rune \<Rightarrow> bool" where
  "IsSpace r =
     (if r \<le> 0xFF
      then r = 0x09 \<or> r = 0x0A \<or> r = 0x0B \<or> r = 0x0C \<or> r = 0x0D \<or> r = 0x20 \<or>
           r = 0x85 \<or> r = 0xA0
      else r = 0x1680 \<or> (0x2000 \<le> r \<and> r \<le> 0x200A) \<or> r = 0x2028 \<or> r = 0x2029 \<or>
           r = 0x202F \<or> r = 0x205F \<or> r = 0x3000)"

definition TrimSpace :: "gostring \<Rightarrow> gostring" where
  "TrimSpace s = rev (dropWhile IsSpace (rev (dropWhile IsSpace s)))"

record SocketModeEvent =
  Type :: gostring
  EnvelopeID :: gostring
  AcceptsResponsePayload :: bool
  Payload :: "byte list"
  RetryAttempt :: int
  RetryReason :: gostring

text \<open>
  The acknowledgement is a \<open>map[string]any\<close>: the envelope id is a string, the
  payload is whatever value the handler put in \<open>SocketModeResponse.Payload\<close>
  (type \<open>'p\<close>, which includes Go's \<open>nil\<close>).
\<close>

datatype 'p any_value = StringValue gostring | AnyValue 'p

type_synonym 'p ack = "string \<rightharpoonup> 'p any_value"

text \<open>
  A handler returns a response pointer (\<open>None\<close> is \<open>nil\<close>, \<open>Some p\<close> a response whose
  \<open>Payload\<close> is \<open>p\<close>) and an error (\<open>None\<close> is \<open>nil\<close>).
\<close>

type_synonym 'p SocketModeHandler = "SocketModeEvent \<Rightarrow> 'p option \<times> go_error option"

text \<open>
  A \<open>SocketModeConn\<close>, scripted as the test double of the repository is: \<open>inbox\<close>
  holds what the successive calls of \<open>ReadJSON\<close> return, each with the time the call
  blocks (which also covers the time spent in the handler and in the write before
  it); \<open>WriteJSON_result k ack\<close> is what the \<open>k\<close>-th call of \<open>WriteJSON\<close> returns when
  given \<open>ack\<close>; \<open>writes\<close> lists the values passed to \<open>WriteJSON\<close>, oldest first;
  \<open>closed\<close> records a call of \<open>Close\<close>. The watcher goroutine of
  \<open>processConnection\<close> only closes the connection, which shows in what the reads
  and writes return; the script ranges over all of that.
\<close>

record 'p SocketModeConn =
  inbox :: "(nat \<times> (go_error + SocketModeEvent)) list"
  WriteJSON_result :: "nat \<Rightarrow> 'p ack \<Rightarrow> go_error option"
  writes :: "'p ack list"
  closed :: bool

definition ReadJSON ::
  "'p SocketModeConn \<Rightarrow> (nat \<times> (go_error + SocketModeEvent) \<times> 'p SocketModeConn) option" where
  "ReadJSON conn =
     (case inbox conn of
        [] \<Rightarrow> None
      | (d, res) # rest \<Rightarrow> Some (d, res, conn\<lparr>inbox := rest\<rparr>))"

definition WriteJSON :: "'p ack \<Rightarrow> 'p SocketModeConn \<Rightarrow> go_error option \<times> 'p SocketModeConn" where
  "WriteJSON v conn =
     (WriteJSON_result conn (length (writes conn)) v, conn\<lparr>writes := writes conn @ [v]\<rparr>)"

datatype log_line =
    DialFailed go_error
  | HandlerError go_error
  | ConnectionEnded go_error

record SocketModeClient =
  appToken :: gostring
  baseURL_set :: bool
  transport_set :: bool
  dialer_set :: bool
  reconnectDelay :: int
  logger_set :: bool

definition Printf :: "SocketModeClient \<Rightarrow> log_line \<Rightarrow> log_line list \<Rightarrow> log_line list" where
  "Printf c line log = (if logger_set c then log @ [line] else log)"

text \<open>
  The body of the processing loop between the read and the write: the handler call
  (lines 249 to 259) and the acknowledgement map (lines 265 to 270).
\<close>

definition handler_response ::
  "SocketModeClient \<Rightarrow> 'p SocketModeHandler option \<Rightarrow> SocketModeEvent \<Rightarrow> log_line list \<Rightarrow>
     'p option \<times> log_line list" where
  "handler_response c handler event log =
     (case handler of
        None \<Rightarrow> (None, log)
      | Some h \<Rightarrow>
          (case h event of
             (handlerResponse, Some err) \<Rightarrow> (None, Printf c (HandlerError err) log)
           | (handlerResponse, None) \<Rightarrow> (handlerResponse, log)))"

definition build_ack :: "SocketModeEvent \<Rightarrow> 'p option \<Rightarrow> 'p ack" where
  "build_ack event response =
     (let ack = [''envelope_id'' \<mapsto> StringValue (EnvelopeID event)]
      in case response of
           Some p \<Rightarrow> if AcceptsResponsePayload event then ack(''payload'' \<mapsto> AnyValue p) else ack
         | None \<Rightarrow> ack)"

text \<open>
  \<open>processConnection\<close> entered at instant \<open>t\<close>: the error it returns, the connection,
  the instant and the log at that point. \<open>None\<close>: the script of reads ran out with
  the loop still blocked in \<open>ReadJSON\<close>.
\<close>

function processConnection ::
  "SocketModeClient \<Rightarrow> 'p SocketModeHandler option \<Rightarrow> 'p SocketModeConn \<Rightarrow> int \<Rightarrow> log_line list \<Rightarrow>
     (go_error \<times> 'p SocketModeConn \<times> int \<times> log_line list) option" where
  "processConnection c handler conn t log =
     (case ReadJSON conn of
        None \<Rightarrow> None
      | Some (d, Inl err, conn1) \<Rightarrow> Some (err, conn1, t + int d, log)
      | Some (d, Inr event, conn1) \<Rightarrow>
          (case handler_response c handler event log of
             (response, log1) \<Rightarrow>
               if TrimSpace (EnvelopeID event) = [] then
                 processConnection c handler conn1 (t + int d) log1
               else
                 (case WriteJSON (build_ack event response) conn1 of
                    (Some err, conn2) \<Rightarrow> Some (err, conn2, t + int d, log1)
                  | (None, conn2) \<Rightarrow> processConnection c handler conn2 (t + int d) log1)))"
  by pat_completeness auto
termination
  by (relation "measure (\<lambda>(c, handler, conn, t, log). length (inbox conn))")
     (auto simp add: ReadJSON_def WriteJSON_def split: list.splits)

declare processConnection.simps [simp del]

text \<open>
  The acknowledgements owed for a list of read results: none for a failed read,
  none for an event whose envelope id is empty once trimmed, and for any other
  event the acknowledgement map built from the handler's response.
\<close>

definition acks_due ::
  "SocketModeClient \<Rightarrow> 'p SocketModeHandler option \<Rightarrow> (nat \<times> (go_error + SocketModeEvent)) list \<Rightarrow>
     'p ack list" where
  "acks_due c handler consumed =
     concat (map (\<lambda>(d, res). case res of
                    Inl err \<Rightarrow> []
                  | Inr event \<Rightarrow>
                      if TrimSpace (EnvelopeID event) = [] then []
                      else [build_ack event (fst (handler_response c handler event []))])
             consumed)"

section \<open>Socket mode: the run loop\<close>

text \<open>
  \<open>waitReconnect\<close> entered at instant \<open>t\<close>: its result and the instant it returns.
  With a positive delay the timer fires at \<open>t + reconnectDelay\<close>; the \<open>select\<close>
  takes the channel that is ready first, and \<open>timer_wins\<close> says which one it takes
  when both become ready at the same instant.
\<close>

definition waitReconnect ::
  "SocketModeClient \<Rightarrow> Context \<Rightarrow> int \<Rightarrow> bool \<Rightarrow> go_error option \<times> int" where
  "waitReconnect c ctx t timer_wins =
     (if reconnectDelay c \<le> 0 then (ctx_Err ctx t, t)
      else
        (case ctx_done_at ctx of
           None \<Rightarrow> (None, t + reconnectDelay c)
         | Some (td, err) \<Rightarrow>
             if td < t + reconnectDelay c \<or> (td = t + reconnectDelay c \<and> \<not> timer_wins)
             then (Some err, max t td)
             else (None, t + reconnectDelay c)))"

text \<open>
  One pass of the run loop meets \<open>openConnection\<close> and \<open>Dial\<close>; the script gives what
  each returns and how long it takes.
\<close>

record 'p attempt =
  openConnection_result :: "nat \<times> (go_error + string)"
  Dial_result :: "nat \<times> (go_error + 'p SocketModeConn)"
  timer_wins_tie :: bool

record 'p run_state =
  clock :: int
  logged :: "log_line list"
  used :: "'p SocketModeConn list"

text \<open>
  The \<open>for\<close> loop of \<open>RunWithHandler\<close>. \<open>None\<close>: the script of attempts ran out, or a
  connection's script of reads did, with the loop still running.
  \<open>processConnection\<close> never returns a nil error, so the branch for it is not there.
\<close>

fun RunWithHandler_loop ::
  "SocketModeClient \<Rightarrow> Context \<Rightarrow> 'p SocketModeHandler option \<Rightarrow> 'p attempt list \<Rightarrow>
     'p run_state \<Rightarrow> (go_error \<times> 'p run_state) option" where
  "RunWithHandler_loop c ctx handler [] st =
     (case ctx_Err ctx (clock st) of
        Some err \<Rightarrow> Some (err, st)
      | None \<Rightarrow> None)"
| "RunWithHandler_loop c ctx handler (a # rest) st =
     (case ctx_Err ctx (clock st) of
        Some err \<Rightarrow> Some (err, st)
      | None \<Rightarrow>
         (let st1 = st\<lparr>clock := clock st + int (fst (openConnection_result a))\<rparr>
          in case snd (openConnection_result a) of
               Inl err \<Rightarrow> Some (err, st1)
             | Inr socketURL \<Rightarrow>
                (let st2 = st1\<lparr>clock := clock st1 + int (fst (Dial_result a))\<rparr>
                 in case snd (Dial_result a) of
                      Inl err \<Rightarrow>
                        (let st3 = st2\<lparr>logged := Printf c (DialFailed err) (logged st2)\<rparr>
                         in case waitReconnect c ctx (clock st3) (timer_wins_tie a) of
                              (Some waitErr, t4) \<Rightarrow> Some (waitErr, st3\<lparr>clock := t4\<rparr>)
                            | (None, t4) \<Rightarrow>
                                RunWithHandler_loop c ctx handler rest (st3\<lparr>clock := t4\<rparr>))
                    | Inr conn \<Rightarrow>
                        (case processConnection c handler conn (clock st2) (logged st2) of
                           None \<Rightarrow> None
                         | Some (err, conn1, t3, log3) \<Rightarrow>
                            (let st3 = st2\<lparr>clock := t3, logged := log3,
                                            used := used st2 @ [conn1\<lparr>closed := True\<rparr>]\<rparr>
                             in if errors_Is err Canceled \<or> errors_Is err DeadlineExceeded
                                then Some (err, st3)
                                else
                                  (case ctx_Err ctx (clock st3) of
                                     Some ctxErr \<Rightarrow> Some (ctxErr, st3)
                                   | None \<Rightarrow>
                                      (let st4 = st3\<lparr>logged := Printf c (ConnectionEnded err) (logged st3)\<rparr>
                                       in case waitReconnect c ctx (clock st4) (timer_wins_tie a) of
                                            (Some waitErr, t5) \<Rightarrow> Some (waitErr, st4\<lparr>clock := t5\<rparr>)
                                          | (None, t5) \<Rightarrow>
                                              RunWithHandler_loop c ctx handler rest
                                                (st4\<lparr>clock := t5\<rparr>))))))))"

declare RunWithHandler_loop.simps [simp del]

text \<open>
  \<open>RunWithHandler\<close>, called at instant \<open>t0\<close>; \<open>ctx\<close> is \<open>None\<close> for a nil context.
\<close>

definition RunWithHandler ::
  "SocketModeClient \<Rightarrow> Context option \<Rightarrow> 'p SocketModeHandler option \<Rightarrow> 'p attempt list \<Rightarrow> int \<Rightarrow>
     (go_error \<times> 'p run_state) option" where
  "RunWithHandler c ctx handler script t0 =
     (let st = \<lparr>clock = t0, logged = [], used = []\<rparr>
      in case ctx of
           None \<Rightarrow> Some (ErrorsNew ''slack: context is required'', st)
         | Some ctx1 \<Rightarrow>
             if TrimSpace (appToken c) = []
             then Some (ErrorsNew ''slack: app-level token is required'', st)
             else if \<not> baseURL_set c
             then Some (ErrorsNew ''slack: socket mode base URL is invalid'', st)
             else if \<not> transport_set c
             then Some (ErrorsNew ''slack: socket mode transport is not configured'', st)
             else if \<not> dialer_set c
             then Some (ErrorsNew ''slack: socket mode dialer is not configured'', st)
             else RunWithHandler_loop c ctx1 handler script st)"

section \<open>Example values\<close>

text \<open>
  A connection with nothing to read, whose writes and random reads succeed.
\<close>

definition idle_conn :: websocketConn where
  "idle_conn =
     \<lparr>reader = \<lparr>pending = [], at_end = EOF\<rparr>, conn_open = True, wire = [],
      write_result = (\<lambda>k. None), rand_Read = (\<lambda>k. Inr (0x12, 0x34, 0x56, 0x78)),
      rand_calls = 0\<rparr>"

text \<open>A server that answers the handshake as it should.\<close>

definition plain_env :: handshake_env where
  "plain_env =
     \<lparr>SetDeadline_result = None, nonce_result = Inr ''0123456789abcdef'',
      WriteString_result = None,
      ReadResponse_result = Inr \<lparr>StatusCode = 101, SecWebSocketAccept = ''key'', Body = []\<rparr>,
      sha1 = (\<lambda>s. s), base64 = (\<lambda>s. ''key'')\<rparr>"

text \<open>
  A client with a valid configuration and the given reconnect delay, an event with
  the given envelope id, and a connection whose reads are scripted and whose
  writes succeed.
\<close>

definition client_with_delay :: "int \<Rightarrow> SocketModeClient" where
  "client_with_delay delay =
     \<lparr>appToken = [0x78, 0x61, 0x70, 0x70], baseURL_set = True, transport_set = True,
      dialer_set = True, reconnectDelay = delay, logger_set = True\<rparr>"

definition event_with_id :: "gostring \<Rightarrow> bool \<Rightarrow> SocketModeEvent" where
  "event_with_id envelope accepts =
     \<lparr>Type = [], EnvelopeID = envelope, AcceptsResponsePayload = accepts, Payload = [],
      RetryAttempt = 0, RetryReason = []\<rparr>"

definition scripted_conn :: "(nat \<times> (go_error + SocketModeEvent)) list \<Rightarrow> string SocketModeConn" where
  "scripted_conn reads =
     \<lparr>inbox = reads, WriteJSON_result = (\<lambda>k v. None), writes = [], closed = False\<rparr>"

text \<open>
  A context cancelled at a given instant, and a pass of the run loop in which
  \<open>openConnection\<close> takes 2 ns and succeeds and \<open>Dial\<close> takes 3 ns and returns the
  given result.
\<close>

definition cancelled_ctx :: "int \<Rightarrow> Context" where
  "cancelled_ctx tc = \<lparr>cancelled_at = Some tc, Deadline = None\<rparr>"

definition attempt_dialing :: "go_error + string SocketModeConn \<Rightarrow> string attempt" where
  "attempt_dialing dialed =
     \<lparr>openConnection_result = (2, Inr ''ws://socket.example/connection''),
      Dial_result = (3, dialed), timer_wins_tie = True\<rparr>"

text \<open>A payload one byte longer than the maximum frame size.\<close>

definition oversized_payload :: "byte list" where
  "oversized_payload = replicate 33554433 0"

section \<open>Frame codec: encoding and decoding\<close>

lemma xor_mask_length: "length (xor_mask key p) = length p"
  by (simp add: xor_mask_def)

lemma xor_mask_invol: "xor_mask key (xor_mask key p) = p"
  by (rule nth_equalityI) (simp_all add: xor_mask_def xor.assoc)

lemma Uint16_Put: "Uint16 (PutUint16 v) = v"
  unfolding Uint16_def PutUint16_def
  by (rule bit_word_eqI) (auto simp add: bit_simps)

lemma Uint64_Put: "Uint64 (PutUint64 v) = v"
  unfolding Uint64_def PutUint64_def
  apply (rule bit_word_eqI)
  apply (simp add: bit_simps less_diff_conv2 cong: conj_cong)
  apply (case_tac "bit v n")
   apply simp_all
  apply arith
  done

lemma header_fin: "(0x80 OR opcode) AND 0x80 \<noteq> (0::byte)"
proof
  assume "(0x80 OR opcode) AND 0x80 = (0::byte)"
  then have "bit ((0x80 OR opcode) AND (0x80::byte)) 7 = bit (0::byte) 7" by simp
  then show False by (simp add: bit_simps)
qed

lemma op_low: "opcode < 16 \<Longrightarrow> opcode AND 0x0F = (opcode::byte)"
  using less_mask_eq[of opcode 4] by (simp add: mask_eq_exp_minus_1)

lemma header_opcode: "opcode < 16 \<Longrightarrow> (0x80 OR opcode) AND 0x0F = (opcode::byte)"
  by (simp add: bit.conj_disj_distrib2 op_low)

lemma len7_unat: "n < 126 \<Longrightarrow> unat (of_nat n :: byte) = n"
  by (simp add: unat_of_nat take_bit_nat_eq_self)

lemma len7_low: "n < 126 \<Longrightarrow> (of_nat n OR 0x80) AND 0x7F = (of_nat n :: byte)"
proof -
  assume n: "n < 126"
  then have "(of_nat n :: byte) < 128" by (simp add: word_less_nat_alt len7_unat) 
  then have "(of_nat n :: byte) AND 0x7F = of_nat n"
    using less_mask_eq[of "of_nat n :: byte" 7] by (simp add: mask_eq_exp_minus_1)
  then show ?thesis by (simp add: bit.conj_disj_distrib2)
qed

lemma len7_maskbit: "(of_nat n OR 0x80) AND 0x80 \<noteq> (0::byte)"
  using header_fin[of "of_nat n"] by (simp add: or.commute)

lemma len7_not_ext:
  assumes "n < 126"
  shows "(of_nat n :: byte) \<noteq> 126" and "(of_nat n :: byte) \<noteq> 127"
proof -
  show "(of_nat n :: byte) \<noteq> 126"
  proof
    assume "(of_nat n :: byte) = 126"
    then have "unat (of_nat n :: byte) = unat (126 :: byte)" by simp
    with assms show False by (simp add: len7_unat)
  qed
  show "(of_nat n :: byte) \<noteq> 127"
  proof
    assume "(of_nat n :: byte) = 127"
    then have "unat (of_nat n :: byte) = unat (127 :: byte)" by simp
    with assms show False by (simp add: len7_unat)
  qed
qed

lemma unat16: "n \<le> 65535 \<Longrightarrow> unat (of_nat n :: 16 word) = n"
  by (simp add: unat_of_nat take_bit_nat_eq_self)

lemma unat64: "n \<le> maxWebSocketFrameSize \<Longrightarrow> unat (of_nat n :: 64 word) = n"
  by (simp add: unat_of_nat take_bit_nat_eq_self maxWebSocketFrameSize_def)

lemma read_bytes_pending:
  "read_bytes n (c\<lparr>reader := \<lparr>pending = xs, at_end = e\<rparr>\<rparr>) =
     (if n \<le> length xs
      then (Inr (take n xs), c\<lparr>reader := \<lparr>pending = drop n xs, at_end = e\<rparr>\<rparr>)
      else (Inl (if xs \<noteq> [] \<and> e = EOF then ErrUnexpectedEOF else e),
            c\<lparr>reader := \<lparr>pending = [], at_end = e\<rparr>\<rparr>))"
  by (simp add: read_bytes_def io_ReadFull_def)

lemma readFrame_masked:
  assumes pl: "readPayloadLength (h1 AND 0x7F) (c\<lparr>reader := \<lparr>pending = ext @ key @ body @ rest, at_end = e\<rparr>\<rparr>) =
             (Inr (length body), c\<lparr>reader := \<lparr>pending = key @ body @ rest, at_end = e\<rparr>\<rparr>)"
    and mb: "h1 AND 0x80 \<noteq> 0"
    and key: "length key = 4"
    and len: "length body \<le> maxWebSocketFrameSize"
  shows "readFrame (c\<lparr>reader := \<lparr>pending = h0 # h1 # ext @ key @ body @ rest, at_end = e\<rparr>\<rparr>) =
           (Inr (h0 AND 0x0F, h0 AND 0x80 \<noteq> 0, xor_mask key body),
            c\<lparr>reader := \<lparr>pending = rest, at_end = e\<rparr>\<rparr>)"
  using mb key len
  by (simp add: readFrame_def read_bytes_pending pl Let_def)

lemma readPayloadLength_short:
  "n < 126 \<Longrightarrow> readPayloadLength (of_nat n) c = (Inr n, c)"
  by (simp add: readPayloadLength_def len7_not_ext len7_unat)

lemma readPayloadLength_16:
  "readPayloadLength 126 (c\<lparr>reader := \<lparr>pending = PutUint16 v @ ys, at_end = e\<rparr>\<rparr>) =
     (Inr (unat v), c\<lparr>reader := \<lparr>pending = ys, at_end = e\<rparr>\<rparr>)"
proof -
  have l: "length (PutUint16 v) = 2" by (simp add: PutUint16_def)
  show ?thesis
    by (simp add: readPayloadLength_def read_bytes_pending l Uint16_Put)
qed

lemma readPayloadLength_64:
  assumes "unat v \<le> maxInt"
  shows "readPayloadLength 127 (c\<lparr>reader := \<lparr>pending = PutUint64 v @ ys, at_end = e\<rparr>\<rparr>) =
     (Inr (unat v), c\<lparr>reader := \<lparr>pending = ys, at_end = e\<rparr>\<rparr>)"
proof -
  have l: "length (PutUint64 v) = 8" by (simp add: PutUint64_def)
  show ?thesis using assms
    by (simp add: readPayloadLength_def read_bytes_pending l Uint64_Put)
qed

lemma readFrame_buildClientFrame:
  assumes op: "opcode < 16"
    and len: "length P \<le> maxWebSocketFrameSize"
    and enc: "buildClientFrame opcode P rnd = Inr frame"
  shows "readFrame (c\<lparr>reader := \<lparr>pending = frame @ rest, at_end = e\<rparr>\<rparr>) =
           (Inr (opcode, True, P), c\<lparr>reader := \<lparr>pending = rest, at_end = e\<rparr>\<rparr>)"
proof -
  from enc obtain m0 m1 m2 m3 where rnd: "rnd = Inr (m0, m1, m2, m3)"
    by (cases rnd) (auto simp add: buildClientFrame_def Let_def)
  let ?key = "[m0, m1, m2, m3]"
  let ?body = "?key @ xor_mask ?key P"
  consider (short) "length P < 126" | (mid) "126 \<le> length P" "length P \<le> 65535"
    | (long) "65535 < length P" by linarith
  then show ?thesis
  proof cases
    case short
    with enc rnd have f: "frame = [0x80 OR opcode, of_nat (length P) OR 0x80] @ ?body"
      by (simp add: buildClientFrame_def Let_def)
    have "readFrame (c\<lparr>reader := \<lparr>pending = (0x80 OR opcode) # (of_nat (length P) OR 0x80) #
                       [] @ ?key @ xor_mask ?key P @ rest, at_end = e\<rparr>\<rparr>) =
           (Inr ((0x80 OR opcode) AND 0x0F, (0x80 OR opcode) AND 0x80 \<noteq> 0, xor_mask ?key (xor_mask ?key P)),
            c\<lparr>reader := \<lparr>pending = rest, at_end = e\<rparr>\<rparr>)"
      using short len
      by (intro readFrame_masked) (simp_all add: len7_low len7_maskbit readPayloadLength_short xor_mask_length)
    then show ?thesis
      by (simp add: f xor_mask_invol header_opcode [OF op] header_fin)
  next
    case mid
    with enc rnd have f: "frame = [0x80 OR opcode, 126 OR 0x80] @ PutUint16 (of_nat (length P)) @ ?body"
      by (simp add: buildClientFrame_def Let_def)
    have "readFrame (c\<lparr>reader := \<lparr>pending = (0x80 OR opcode) # (126 OR 0x80) # PutUint16 (of_nat (length P)) @ ?key @ xor_mask ?key P @ rest, at_end = e\<rparr>\<rparr>) =
           (Inr ((0x80 OR opcode) AND 0x0F, (0x80 OR opcode) AND 0x80 \<noteq> 0, xor_mask ?key (xor_mask ?key P)),
            c\<lparr>reader := \<lparr>pending = rest, at_end = e\<rparr>\<rparr>)"
      using mid len
      by (intro readFrame_masked) (simp_all add: readPayloadLength_16 unat16 xor_mask_length)
    then show ?thesis
      by (simp add: f xor_mask_invol header_opcode [OF op] header_fin)
  next
    case long
    with enc rnd have f: "frame = [0x80 OR opcode, 127 OR 0x80] @ PutUint64 (of_nat (length P)) @ ?body"
      by (simp add: buildClientFrame_def Let_def)
    have mi: "unat (of_nat (length P) :: 64 word) \<le> maxInt"
      using len by (simp add: unat64) (simp add: maxInt_def maxWebSocketFrameSize_def)
    have "readFrame (c\<lparr>reader := \<lparr>pending = (0x80 OR opcode) # (127 OR 0x80) # PutUint64 (of_nat (length P)) @ ?key @ xor_mask ?key P @ rest, at_end = e\<rparr>\<rparr>) =
           (Inr ((0x80 OR opcode) AND 0x0F, (0x80 OR opcode) AND 0x80 \<noteq> 0, xor_mask ?key (xor_mask ?key P)),
            c\<lparr>reader := \<lparr>pending = rest, at_end = e\<rparr>\<rparr>)"
      using long len
      by (intro readFrame_masked) (simp_all add: readPayloadLength_64 [OF mi] unat64 xor_mask_length)
    then show ?thesis
      by (simp add: f xor_mask_invol header_opcode [OF op] header_fin)
  qed
qed

lemma opcodes_are_4bit:
  "wsOpcodeContinuation < 16" "wsOpcodeText < 16" "wsOpcodeBinary < 16"
  "wsOpcodeClose < 16" "wsOpcodePing < 16" "wsOpcodePong < 16"
  by (simp_all add: wsOpcodeContinuation_def wsOpcodeText_def wsOpcodeBinary_def
        wsOpcodeClose_def wsOpcodePing_def wsOpcodePong_def)

lemma xor_mask_zero_key: "xor_mask [0, 0, 0, 0] p = p"
proof (rule nth_equalityI)
  show "length (xor_mask [0, 0, 0, 0] p) = length p" by (simp add: xor_mask_length)
next
  fix i assume "i < length (xor_mask [0, 0, 0, 0] p)"
  moreover have "[0, 0, 0, 0 :: byte] ! j = 0" if "j < 4" for j
    using that by (auto simp add: nth_Cons')
  ultimately show "xor_mask [0, 0, 0, 0] p ! i = p ! i"
    by (simp add: xor_mask_def)
qed

text \<open>
  C2. For an opcode (a 4-bit value, as the six opcodes of the code are), a mask
  key and a payload of length 0, 1, 125, 126, 65535 or 65536, \<open>buildClientFrame\<close>
  returns a frame: the header byte with FIN set, the length inline below 126
  bytes, in the 16-bit extension up to 65535 and in the 64-bit extension above,
  then the 4-byte key and the masked payload. \<open>readFrame\<close> decodes that frame to
  exactly the opcode, FIN set and the payload, and leaves what follows the frame
  unread.
\<close>

theorem buildClientFrame_readFrame_roundtrip:
  assumes "opcode < 16"
    and "length P \<in> {0, 1, 125, 126, 65535, 65536}"
  shows "buildClientFrame opcode P (Inr (m0, m1, m2, m3)) =
           Inr ([0x80 OR opcode] @
                (if length P < 126 then [of_nat (length P) OR 0x80]
                 else if length P \<le> 65535 then [0xFE] @ PutUint16 (of_nat (length P))
                 else [0xFF] @ PutUint64 (of_nat (length P))) @
                [m0, m1, m2, m3] @ xor_mask [m0, m1, m2, m3] P) \<and>
         readFrame (c\<lparr>reader :=
             \<lparr>pending = projr (buildClientFrame opcode P (Inr (m0, m1, m2, m3))) @ rest,
              at_end = e\<rparr>\<rparr>) =
           (Inr (opcode, True, P), c\<lparr>reader := \<lparr>pending = rest, at_end = e\<rparr>\<rparr>) \<and>
         length (projr (buildClientFrame opcode P (Inr (m0, m1, m2, m3)))) =
           2 + (if length P < 126 then 0 else if length P \<le> 65535 then 2 else 8) + 4 + length P"
proof -
  from assms(2) have len: "length P \<le> maxWebSocketFrameSize"
    by (auto simp add: maxWebSocketFrameSize_def)
  have enc: "buildClientFrame opcode P (Inr (m0, m1, m2, m3)) =
           Inr ([0x80 OR opcode] @
                (if length P < 126 then [of_nat (length P) OR 0x80]
                 else if length P \<le> 65535 then [0xFE] @ PutUint16 (of_nat (length P))
                 else [0xFF] @ PutUint64 (of_nat (length P))) @
                [m0, m1, m2, m3] @ xor_mask [m0, m1, m2, m3] P)"
    by (simp add: buildClientFrame_def Let_def)
  then have pr: "buildClientFrame opcode P (Inr (m0, m1, m2, m3)) =
      Inr (projr (buildClientFrame opcode P (Inr (m0, m1, m2, m3))))"
    by simp
  have shape: "length (projr (buildClientFrame opcode P (Inr (m0, m1, m2, m3)))) =
           2 + (if length P < 126 then 0 else if length P \<le> 65535 then 2 else 8) + 4 + length P"
    by (simp add: enc xor_mask_length PutUint16_def PutUint64_def)
  from readFrame_buildClientFrame [OF assms(1) len pr] enc shape show ?thesis
    by blast
qed

theorem buildClientFrame_readFrame_roundtrip_witness:
  "buildClientFrame wsOpcodePong ([]) (Inr (0x12, 0x34, 0x56, 0x78)) =
     Inr ([0x8A, 0x80, 0x12, 0x34, 0x56, 0x78]) \<and>
   readFrame (idle_conn\<lparr>reader :=
       \<lparr>pending = ([0x8A, 0x80, 0x12, 0x34, 0x56, 0x78]) @ [0x8A, 0x00], at_end = EOF\<rparr>\<rparr>) =
     (Inr (wsOpcodePong, True, []),
      idle_conn\<lparr>reader := \<lparr>pending = [0x8A, 0x00], at_end = EOF\<rparr>\<rparr>) \<and>
   buildClientFrame wsOpcodeText ([0x41]) (Inr (0x12, 0x34, 0x56, 0x78)) =
     Inr ([0x81, 0x81, 0x12, 0x34, 0x56, 0x78, 0x53]) \<and>
   readFrame (idle_conn\<lparr>reader :=
       \<lparr>pending = ([0x81, 0x81, 0x12, 0x34, 0x56, 0x78, 0x53]) @ [0x8A, 0x00], at_end = EOF\<rparr>\<rparr>) =
     (Inr (wsOpcodeText, True, [0x41]),
      idle_conn\<lparr>reader := \<lparr>pending = [0x8A, 0x00], at_end = EOF\<rparr>\<rparr>) \<and>
   buildClientFrame wsOpcodeBinary (replicate 125 0x41) (Inr (0, 0, 0, 0)) =
     Inr ([0x82, 0xFD, 0, 0, 0, 0] @ replicate 125 0x41) \<and>
   readFrame (idle_conn\<lparr>reader :=
       \<lparr>pending = ([0x82, 0xFD, 0, 0, 0, 0] @ replicate 125 0x41) @ [0x8A, 0x00], at_end = EOF\<rparr>\<rparr>) =
     (Inr (wsOpcodeBinary, True, replicate 125 0x41),
      idle_conn\<lparr>reader := \<lparr>pending = [0x8A, 0x00], at_end = EOF\<rparr>\<rparr>) \<and>
   buildClientFrame wsOpcodeBinary (replicate 126 0x41) (Inr (0, 0, 0, 0)) =
     Inr ([0x82, 0xFE, 0x00, 0x7E, 0, 0, 0, 0] @ replicate 126 0x41) \<and>
   readFrame (idle_conn\<lparr>reader :=
       \<lparr>pending = ([0x82, 0xFE, 0x00, 0x7E, 0, 0, 0, 0] @ replicate 126 0x41) @ [0x8A, 0x00], at_end = EOF\<rparr>\<rparr>) =
     (Inr (wsOpcodeBinary, True, replicate 126 0x41),
      idle_conn\<lparr>reader := \<lparr>pending = [0x8A, 0x00], at_end = EOF\<rparr>\<rparr>) \<and>
   buildClientFrame wsOpcodeBinary (replicate 65535 0x41) (Inr (0, 0, 0, 0)) =
     Inr ([0x82, 0xFE, 0xFF, 0xFF, 0, 0, 0, 0] @ replicate 65535 0x41) \<and>
   readFrame (idle_conn\<lparr>reader :=
       \<lparr>pending = ([0x82, 0xFE, 0xFF, 0xFF, 0, 0, 0, 0] @ replicate 65535 0x41) @ [0x8A, 0x00], at_end = EOF\<rparr>\<rparr>) =
     (Inr (wsOpcodeBinary, True, replicate 65535 0x41),
      idle_conn\<lparr>reader := \<lparr>pending = [0x8A, 0x00], at_end = EOF\<rparr>\<rparr>) \<and>
   buildClientFrame wsOpcodeBinary (replicate 65536 0x41) (Inr (0, 0, 0, 0)) =
     Inr ([0x82, 0xFF, 0, 0, 0, 0, 0, 1, 0, 0, 0, 0, 0, 0] @ replicate 65536 0x41) \<and>
   readFrame (idle_conn\<lparr>reader :=
       \<lparr>pending = ([0x82, 0xFF, 0, 0, 0, 0, 0, 1, 0, 0, 0, 0, 0, 0] @ replicate 65536 0x41) @ [0x8A, 0x00], at_end = EOF\<rparr>\<rparr>) =
     (Inr (wsOpcodeBinary, True, replicate 65536 0x41),
      idle_conn\<lparr>reader := \<lparr>pending = [0x8A, 0x00], at_end = EOF\<rparr>\<rparr>)"
proof -
  have ops: "wsOpcodePong < 16" "wsOpcodeText < 16" "wsOpcodeBinary < 16"
    by (simp_all add: wsOpcodePong_def wsOpcodeText_def wsOpcodeBinary_def)
  have len0: "length ([] :: byte list) \<in> {0, 1, 125, 126, 65535, 65536}" by simp
  note t0 = buildClientFrame_readFrame_roundtrip
    [where opcode = wsOpcodePong and P = "[]" and ?m0.0 = "0x12" and ?m1.0 = "0x34"
       and ?m2.0 = "0x56" and ?m3.0 = "0x78" and c = idle_conn and rest = "[0x8A, 0x00]"
       and e = EOF, OF _ len0]
  have enc0: "buildClientFrame wsOpcodePong ([]) (Inr (0x12, 0x34, 0x56, 0x78)) =
     Inr ([0x8A, 0x80, 0x12, 0x34, 0x56, 0x78])"
    using t0 [THEN conjunct1] ops
    by (simp add: xor_mask_def PutUint16_def PutUint64_def
          wsOpcodePong_def wsOpcodeText_def wsOpcodeBinary_def)
  have dec0: "readFrame (idle_conn\<lparr>reader :=
       \<lparr>pending = ([0x8A, 0x80, 0x12, 0x34, 0x56, 0x78]) @ [0x8A, 0x00], at_end = EOF\<rparr>\<rparr>) =
     (Inr (wsOpcodePong, True, []),
      idle_conn\<lparr>reader := \<lparr>pending = [0x8A, 0x00], at_end = EOF\<rparr>\<rparr>)"
    using t0 [THEN conjunct2, THEN conjunct1] ops unfolding enc0 by simp
  have len1: "length ([0x41] :: byte list) \<in> {0, 1, 125, 126, 65535, 65536}" by simp
  note t1 = buildClientFrame_readFrame_roundtrip
    [where opcode = wsOpcodeText and P = "[0x41]" and ?m0.0 = "0x12" and ?m1.0 = "0x34"
       and ?m2.0 = "0x56" and ?m3.0 = "0x78" and c = idle_conn and rest = "[0x8A, 0x00]"
       and e = EOF, OF _ len1]
  have enc1: "buildClientFrame wsOpcodeText ([0x41]) (Inr (0x12, 0x34, 0x56, 0x78)) =
     Inr ([0x81, 0x81, 0x12, 0x34, 0x56, 0x78, 0x53])"
    using t1 [THEN conjunct1] ops
    by (simp add: xor_mask_def PutUint16_def PutUint64_def
          wsOpcodePong_def wsOpcodeText_def wsOpcodeBinary_def)
  have dec1: "readFrame (idle_conn\<lparr>reader :=
       \<lparr>pending = ([0x81, 0x81, 0x12, 0x34, 0x56, 0x78, 0x53]) @ [0x8A, 0x00], at_end = EOF\<rparr>\<rparr>) =
     (Inr (wsOpcodeText, True, [0x41]),
      idle_conn\<lparr>reader := \<lparr>pending = [0x8A, 0x00], at_end = EOF\<rparr>\<rparr>)"
    using t1 [THEN conjunct2, THEN conjunct1] ops unfolding enc1 by simp
  have len125: "length (replicate 125 0x41 :: byte list) \<in> {0, 1, 125, 126, 65535, 65536}" by simp
  note t125 = buildClientFrame_readFrame_roundtrip
    [where opcode = wsOpcodeBinary and P = "replicate 125 0x41" and ?m0.0 = "0" and ?m1.0 = "0"
       and ?m2.0 = "0" and ?m3.0 = "0" and c = idle_conn and rest = "[0x8A, 0x00]"
       and e = EOF, OF _ len125]
  have enc125: "buildClientFrame wsOpcodeBinary (replicate 125 0x41) (Inr (0, 0, 0, 0)) =
     Inr ([0x82, 0xFD, 0, 0, 0, 0] @ replicate 125 0x41)"
    using t125 [THEN conjunct1] ops
    by (simp add: xor_mask_zero_key PutUint16_def PutUint64_def
          wsOpcodePong_def wsOpcodeText_def wsOpcodeBinary_def)
  have dec125: "readFrame (idle_conn\<lparr>reader :=
       \<lparr>pending = ([0x82, 0xFD, 0, 0, 0, 0] @ replicate 125 0x41) @ [0x8A, 0x00], at_end = EOF\<rparr>\<rparr>) =
     (Inr (wsOpcodeBinary, True, replicate 125 0x41),
      idle_conn\<lparr>reader := \<lparr>pending = [0x8A, 0x00], at_end = EOF\<rparr>\<rparr>)"
    using t125 [THEN conjunct2, THEN conjunct1] ops unfolding enc125 by simp
  have len126: "length (replicate 126 0x41 :: byte list) \<in> {0, 1, 125, 126, 65535, 65536}" by simp
  note t126 = buildClientFrame_readFrame_roundtrip
    [where opcode = wsOpcodeBinary and P = "replicate 126 0x41" and ?m0.0 = "0" and ?m1.0 = "0"
       and ?m2.0 = "0" and ?m3.0 = "0" and c = idle_conn and rest = "[0x8A, 0x00]"
       and e = EOF, OF _ len126]
  have enc126: "buildClientFrame wsOpcodeBinary (replicate 126 0x41) (Inr (0, 0, 0, 0)) =
     Inr ([0x82, 0xFE, 0x00, 0x7E, 0, 0, 0, 0] @ replicate 126 0x41)"
    using t126 [THEN conjunct1] ops
    by (simp add: xor_mask_zero_key PutUint16_def PutUint64_def
          wsOpcodePong_def wsOpcodeText_def wsOpcodeBinary_def)
  have dec126: "readFrame (idle_conn\<lparr>reader :=
       \<lparr>pending = ([0x82, 0xFE, 0x00, 0x7E, 0, 0, 0, 0] @ replicate 126 0x41) @ [0x8A, 0x00], at_end = EOF\<rparr>\<rparr>) =
     (Inr (wsOpcodeBinary, True, replicate 126 0x41),
      idle_conn\<lparr>reader := \<lparr>pending = [0x8A, 0x00], at_end = EOF\<rparr>\<rparr>)"
    using t126 [THEN conjunct2, THEN conjunct1] ops unfolding enc126 by simp
  have len65535: "length (replicate 65535 0x41 :: byte list) \<in> {0, 1, 125, 126, 65535, 65536}" by simp
  note t65535 = buildClientFrame_readFrame_roundtrip
    [where opcode = wsOpcodeBinary and P = "replicate 65535 0x41" and ?m0.0 = "0" and ?m1.0 = "0"
       and ?m2.0 = "0" and ?m3.0 = "0" and c = idle_conn and rest = "[0x8A, 0x00]"
       and e = EOF, OF _ len65535]
  have enc65535: "buildClientFrame wsOpcodeBinary (replicate 65535 0x41) (Inr (0, 0, 0, 0)) =
     Inr ([0x82, 0xFE, 0xFF, 0xFF, 0, 0, 0, 0] @ replicate 65535 0x41)"
    using t65535 [THEN conjunct1] ops
    by (simp add: xor_mask_zero_key PutUint16_def PutUint64_def
          wsOpcodePong_def wsOpcodeText_def wsOpcodeBinary_def)
  have dec65535: "readFrame (idle_conn\<lparr>reader :=
       \<lparr>pending = ([0x82, 0xFE, 0xFF, 0xFF, 0, 0, 0, 0] @ replicate 65535 0x41) @ [0x8A, 0x00], at_end = EOF\<rparr>\<rparr>) =
     (Inr (wsOpcodeBinary, True, replicate 65535 0x41),
      idle_conn\<lparr>reader := \<lparr>pending = [0x8A, 0x00], at_end = EOF\<rparr>\<rparr>)"
    using t65535 [THEN conjunct2, THEN conjunct1] ops unfolding enc65535 by simp
  have len65536: "length (replicate 65536 0x41 :: byte list) \<in> {0, 1, 125, 126, 65535, 65536}" by simp
  note t65536 = buildClientFrame_readFrame_roundtrip
    [where opcode = wsOpcodeBinary and P = "replicate 65536 0x41" and ?m0.0 = "0" and ?m1.0 = "0"
       and ?m2.0 = "0" and ?m3.0 = "0" and c = idle_conn and rest = "[0x8A, 0x00]"
       and e = EOF, OF _ len65536]
  have enc65536: "buildClientFrame wsOpcodeBinary (replicate 65536 0x41) (Inr (0, 0, 0, 0)) =
     Inr ([0x82, 0xFF, 0, 0, 0, 0, 0, 1, 0, 0, 0, 0, 0, 0] @ replicate 65536 0x41)"
    using t65536 [THEN conjunct1] ops
    by (simp add: xor_mask_zero_key PutUint16_def PutUint64_def
          wsOpcodePong_def wsOpcodeText_def wsOpcodeBinary_def)
  have dec65536: "readFrame (idle_conn\<lparr>reader :=
       \<lparr>pending = ([0x82, 0xFF, 0, 0, 0, 0, 0, 1, 0, 0, 0, 0, 0, 0] @ replicate 65536 0x41) @ [0x8A, 0x00], at_end = EOF\<rparr>\<rparr>) =
     (Inr (wsOpcodeBinary, True, replicate 65536 0x41),
      idle_conn\<lparr>reader := \<lparr>pending = [0x8A, 0x00], at_end = EOF\<rparr>\<rparr>)"
    using t65536 [THEN conjunct2, THEN conjunct1] ops unfolding enc65536 by simp
  from enc0 dec0 enc1 dec1 enc125 dec125 enc126 dec126 enc65535 dec65535 enc65536 dec65536 show ?thesis by blast
qed

text \<open>
  C5, as stated, fails for the encoder: \<open>buildClientFrame\<close> has no size check, and
  encodes a payload of 32 MiB + 1 bytes with the 64-bit length field.
\<close>

theorem buildClientFrame_oversized_counterexample:
  "maxWebSocketFrameSize < length oversized_payload \<and>
   buildClientFrame wsOpcodeText oversized_payload (Inr (0, 0, 0, 0)) =
     Inr ([0x81, 0xFF, 0, 0, 0, 0, 2, 0, 0, 1, 0, 0, 0, 0] @ oversized_payload)"
proof -
  have z: "xor_mask [0, 0, 0, 0] p = p" for p :: "byte list"
  proof (rule nth_equalityI)
    show "length (xor_mask [0, 0, 0, 0] p) = length p" by (simp add: xor_mask_length)
  next
    fix i assume "i < length (xor_mask [0, 0, 0, 0] p)"
    moreover have "[0, 0, 0, 0 :: byte] ! j = 0" if "j < 4" for j
      using that by (auto simp add: nth_Cons' )
    ultimately show "xor_mask [0, 0, 0, 0] p ! i = p ! i"
      by (simp add: xor_mask_def)
  qed
  show ?thesis
    by (simp add: buildClientFrame_def Let_def z oversized_payload_def maxWebSocketFrameSize_def
          wsOpcodeText_def PutUint64_def)
qed

lemma read_bytes_length:
  "read_bytes n c = (Inr xs, c1) \<Longrightarrow> length xs = n"
  by (auto simp add: read_bytes_def io_ReadFull_def split: if_splits)

lemma readFrame_payload_bound:
  assumes "readFrame c = (Inr (opcode, fin, payload), c')"
  shows "length payload \<le> maxWebSocketFrameSize"
  using assms
  by (auto simp add: readFrame_def Let_def xor_mask_length
      split: prod.splits sum.splits if_splits dest: read_bytes_length)

lemma readFrame_declared_64:
  assumes p: "pending (reader c) = h0 # h1 # ext @ rest"
    and b: "h1 AND 0x7F = 127"
    and l: "length ext = 8"
    and big: "maxWebSocketFrameSize < unat (Uint64 ext)"
  shows "fst (readFrame c) =
     Inl (if unat (Uint64 ext) > maxInt
          then ErrorsNew ''slack: websocket payload length overflow''
          else Errorf ''slack: websocket frame too large: %d'' (unat (Uint64 ext)))"
proof -
  have c: "c = c\<lparr>reader := \<lparr>pending = h0 # h1 # ext @ rest, at_end = at_end (reader c)\<rparr>\<rparr>"
    using p by simp
  show ?thesis
    apply (subst c)
    using b l big
    by (simp add: readFrame_def Let_def read_bytes_pending readPayloadLength_def)
qed

text \<open>
  C5, amended. On the way in the maximum is enforced: every frame \<open>readFrame\<close>
  returns carries at most 32 MiB, and a frame whose 64-bit length field declares
  more is rejected, with the frame-too-large error, or with the payload-length
  overflow error when the declared length is above the largest \<open>int\<close>. On the way
  out there is no maximum: \<open>buildClientFrame\<close> encodes a payload of any length.
\<close>

theorem readFrame_enforces_frame_size:
  "(readFrame c = (Inr (opcode, fin, payload), c') \<longrightarrow>
      length payload \<le> maxWebSocketFrameSize) \<and>
   (pending (reader d) = h0 # h1 # ext @ rest \<and> h1 AND 0x7F = 127 \<and> length ext = 8 \<and>
    maxWebSocketFrameSize < unat (Uint64 ext) \<longrightarrow>
      fst (readFrame d) =
        Inl (if unat (Uint64 ext) > maxInt
             then ErrorsNew ''slack: websocket payload length overflow''
             else Errorf ''slack: websocket frame too large: %d'' (unat (Uint64 ext)))) \<and>
   \<not> isl (buildClientFrame op P (Inr (m0, m1, m2, m3))) \<and>
   length P < length (projr (buildClientFrame op P (Inr (m0, m1, m2, m3))))"
proof -
  have enc: "\<not> isl (buildClientFrame op P (Inr (m0, m1, m2, m3))) \<and>
      length P < length (projr (buildClientFrame op P (Inr (m0, m1, m2, m3))))"
    by (simp add: buildClientFrame_def Let_def xor_mask_length)
  with readFrame_payload_bound readFrame_declared_64 show ?thesis
    by blast
qed

theorem readFrame_enforces_frame_size_witness:
  "readFrame (idle_conn\<lparr>reader := \<lparr>pending = [0x81, 0x01, 0x41], at_end = EOF\<rparr>\<rparr>) =
     (Inr (wsOpcodeText, True, [0x41]), idle_conn\<lparr>reader := \<lparr>pending = [], at_end = EOF\<rparr>\<rparr>) \<and>
   length [0x41 :: byte] \<le> maxWebSocketFrameSize \<and>
   maxWebSocketFrameSize < unat (Uint64 [0, 0, 0, 0, 2, 0, 0, 1]) \<and>
   fst (readFrame (idle_conn\<lparr>reader :=
          \<lparr>pending = [0x81, 0x7F] @ [0, 0, 0, 0, 2, 0, 0, 1] @ [0x41], at_end = EOF\<rparr>\<rparr>)) =
     Inl (Errorf ''slack: websocket frame too large: %d'' 33554433)"
proof -
  have r: "readFrame (idle_conn\<lparr>reader := \<lparr>pending = [0x81, 0x01, 0x41], at_end = EOF\<rparr>\<rparr>) =
     (Inr (wsOpcodeText, True, [0x41]), idle_conn\<lparr>reader := \<lparr>pending = [], at_end = EOF\<rparr>\<rparr>)"
    by (simp add: readFrame_def read_bytes_pending readPayloadLength_def Let_def wsOpcodeText_def
          maxWebSocketFrameSize_def)
  have u: "unat (Uint64 [0, 0, 0, 0, 2, 0, 0, 1]) = 33554433"
    by (simp add: Uint64_def)
  have big: "maxWebSocketFrameSize < unat (Uint64 [0, 0, 0, 0, 2, 0, 0, 1])"
    by (simp add: u maxWebSocketFrameSize_def)
  have p: "pending (reader (idle_conn\<lparr>reader :=
          \<lparr>pending = [0x81, 0x7F] @ [0, 0, 0, 0, 2, 0, 0, 1] @ [0x41], at_end = EOF\<rparr>\<rparr>)) =
        0x81 # 0x7F # [0, 0, 0, 0, 2, 0, 0, 1] @ [0x41]"
    by simp
  have b: "(0x7F :: byte) AND 0x7F = 127" by simp
  have l: "length [0, 0, 0, 0, 2, 0, 0, 1 :: byte] = 8" by simp
  note t = readFrame_enforces_frame_size
    [where c = "idle_conn\<lparr>reader := \<lparr>pending = [0x81, 0x01, 0x41], at_end = EOF\<rparr>\<rparr>"
       and opcode = wsOpcodeText and fin = True and payload = "[0x41]"
       and c' = "idle_conn\<lparr>reader := \<lparr>pending = [], at_end = EOF\<rparr>\<rparr>"
       and d = "idle_conn\<lparr>reader :=
          \<lparr>pending = [0x81, 0x7F] @ [0, 0, 0, 0, 2, 0, 0, 1] @ [0x41], at_end = EOF\<rparr>\<rparr>"
       and ?h0.0 = "0x81" and ?h1.0 = "0x7F" and ext = "[0, 0, 0, 0, 2, 0, 0, 1]"
       and rest = "[0x41]"]
  from t r have one: "length [0x41 :: byte] \<le> maxWebSocketFrameSize" by blast
  from t p b l big have two: "fst (readFrame (idle_conn\<lparr>reader :=
          \<lparr>pending = [0x81, 0x7F] @ [0, 0, 0, 0, 2, 0, 0, 1] @ [0x41], at_end = EOF\<rparr>\<rparr>)) =
     Inl (if unat (Uint64 [0, 0, 0, 0, 2, 0, 0, 1]) > maxInt
             then ErrorsNew ''slack: websocket payload length overflow''
             else Errorf ''slack: websocket frame too large: %d''
                    (unat (Uint64 [0, 0, 0, 0, 2, 0, 0, 1])))"
    by blast
  from two have two': "fst (readFrame (idle_conn\<lparr>reader :=
          \<lparr>pending = [0x81, 0x7F] @ [0, 0, 0, 0, 2, 0, 0, 1] @ [0x41], at_end = EOF\<rparr>\<rparr>)) =
     Inl (Errorf ''slack: websocket frame too large: %d'' 33554433)"
    by (simp add: u maxInt_def)
  from r one big two' show ?thesis by blast
qed

section \<open>Messages: fragmentation and control frames\<close>

lemma opcode_distinct [simp]:
  "wsOpcodeContinuation \<noteq> wsOpcodeText" "wsOpcodeContinuation \<noteq> wsOpcodeBinary"
  "wsOpcodePing \<noteq> wsOpcodeText" "wsOpcodePing \<noteq> wsOpcodeBinary"
  "wsOpcodePing \<noteq> wsOpcodeContinuation"
  "wsOpcodePong \<noteq> wsOpcodeText" "wsOpcodePong \<noteq> wsOpcodeBinary"
  "wsOpcodePong \<noteq> wsOpcodeContinuation" "wsOpcodePong \<noteq> wsOpcodePing"
  "wsOpcodeClose \<noteq> wsOpcodeText" "wsOpcodeClose \<noteq> wsOpcodeBinary"
  "wsOpcodeClose \<noteq> wsOpcodeContinuation" "wsOpcodeClose \<noteq> wsOpcodePing"
  "wsOpcodeClose \<noteq> wsOpcodePong"
  by (simp_all add: wsOpcodeContinuation_def wsOpcodeText_def wsOpcodeBinary_def
        wsOpcodePing_def wsOpcodePong_def wsOpcodeClose_def)

lemma frames_arrive_Cons:
  "frames_arrive c (f # fs) = Some c' \<longleftrightarrow>
     (\<exists>c1. readFrame c = (Inr f, c1) \<and> frames_arrive c1 fs = Some c')"
  by (auto split: prod.splits sum.splits if_splits)

lemma readMessage_loop_continuations:
  "frames_arrive c (map (\<lambda>p. (wsOpcodeContinuation, False, p)) mids @
                     [(wsOpcodeContinuation, True, plast)]) = Some c' \<Longrightarrow>
   readMessage_loop buffer True c = (Inr (buffer @ concat mids @ plast), c')"
proof (induction mids arbitrary: buffer c)
  case Nil
  then show ?case
    by (subst readMessage_loop.simps)
       (auto simp add: frames_arrive_Cons simp del: frames_arrive.simps(2))
next
  case (Cons p mids)
  from Cons.prems obtain c1 where
    r: "readFrame c = (Inr (wsOpcodeContinuation, False, p), c1)" and
    rest: "frames_arrive c1 (map (\<lambda>p. (wsOpcodeContinuation, False, p)) mids @
                     [(wsOpcodeContinuation, True, plast)]) = Some c'"
    by (auto simp add: frames_arrive_Cons simp del: frames_arrive.simps(2))
  have "readMessage_loop buffer True c = readMessage_loop (buffer @ p) True c1"
    by (subst readMessage_loop.simps) (simp add: r)
  with Cons.IH [OF rest, of "buffer @ p"] show ?case by simp
qed

lemma readMessage_loop_interrupted:
  "frames_arrive c (map (\<lambda>p. (wsOpcodeContinuation, False, p)) mids @ [(opcode, fin, p')]) = Some c' \<Longrightarrow>
   opcode = wsOpcodeText \<or> opcode = wsOpcodeBinary \<Longrightarrow>
   readMessage_loop buffer True c = (Inl (ErrorsNew ''slack: unexpected websocket data frame''), c')"
proof (induction mids arbitrary: buffer c)
  case Nil
  then show ?case
    by (subst readMessage_loop.simps)
       (auto simp add: frames_arrive_Cons simp del: frames_arrive.simps(2))
next
  case (Cons p mids)
  from Cons.prems obtain c1 where
    r: "readFrame c = (Inr (wsOpcodeContinuation, False, p), c1)" and
    rest: "frames_arrive c1 (map (\<lambda>p. (wsOpcodeContinuation, False, p)) mids @
                     [(opcode, fin, p')]) = Some c'"
    by (auto simp add: frames_arrive_Cons simp del: frames_arrive.simps(2))
  have "readMessage_loop buffer True c = readMessage_loop (buffer @ p) True c1"
    by (subst readMessage_loop.simps) (simp add: r)
  with Cons.IH [OF rest Cons.prems(2), of "buffer @ p"] show ?case by simp
qed

lemma readMessage_first_fragment:
  "readFrame c = (Inr (opcode, False, p0), c1) \<Longrightarrow>
   opcode = wsOpcodeText \<or> opcode = wsOpcodeBinary \<Longrightarrow>
   readMessage c = readMessage_loop p0 True c1"
  unfolding readMessage_def
  by (subst readMessage_loop.simps) auto

text \<open>
  C4. A first text or binary frame with FIN clear, followed by N continuation
  frames of which only the last has FIN set (N is \<open>length mids + 1\<close>, for any
  \<open>mids\<close>, so in particular N = 1..5): \<open>readMessage\<close> returns the payloads
  concatenated in arrival order, whatever N is. A continuation frame with no
  fragmented message open, and a text or binary frame while one is open, make
  \<open>readMessage\<close> fail with the protocol error for it.
\<close>

theorem readMessage_reassembles_fragments:
  "((opcode = wsOpcodeText \<or> opcode = wsOpcodeBinary) \<and>
    frames_arrive c ((opcode, False, p0) # map (\<lambda>p. (wsOpcodeContinuation, False, p)) mids @
                       [(wsOpcodeContinuation, True, plast)]) = Some c' \<longrightarrow>
      readMessage c = (Inr (p0 @ concat mids @ plast), c')) \<and>
   (frames_arrive d [(wsOpcodeContinuation, fin, p)] = Some d' \<longrightarrow>
      readMessage d = (Inl (ErrorsNew ''slack: unexpected websocket continuation frame''), d')) \<and>
   ((opcode1 = wsOpcodeText \<or> opcode1 = wsOpcodeBinary) \<and>
    (opcode2 = wsOpcodeText \<or> opcode2 = wsOpcodeBinary) \<and>
    frames_arrive e ((opcode1, False, q0) # map (\<lambda>p. (wsOpcodeContinuation, False, p)) qs @
                       [(opcode2, fin2, q)]) = Some e' \<longrightarrow>
      readMessage e = (Inl (ErrorsNew ''slack: unexpected websocket data frame''), e'))"
proof (intro conjI impI)
  assume a: "(opcode = wsOpcodeText \<or> opcode = wsOpcodeBinary) \<and>
    frames_arrive c ((opcode, False, p0) # map (\<lambda>p. (wsOpcodeContinuation, False, p)) mids @
                       [(wsOpcodeContinuation, True, plast)]) = Some c'"
  then obtain c1 where r: "readFrame c = (Inr (opcode, False, p0), c1)"
    and rest: "frames_arrive c1 (map (\<lambda>p. (wsOpcodeContinuation, False, p)) mids @
                       [(wsOpcodeContinuation, True, plast)]) = Some c'"
    by (auto simp add: frames_arrive_Cons simp del: frames_arrive.simps(2))
  from a have "opcode = wsOpcodeText \<or> opcode = wsOpcodeBinary" by blast
  from readMessage_first_fragment [OF r this]
  have "readMessage c = readMessage_loop p0 True c1" .
  with readMessage_loop_continuations [OF rest, of p0]
  show "readMessage c = (Inr (p0 @ concat mids @ plast), c')" by simp
next
  assume "frames_arrive d [(wsOpcodeContinuation, fin, p)] = Some d'"
  then have "readFrame d = (Inr (wsOpcodeContinuation, fin, p), d')"
    by (auto simp add: frames_arrive_Cons simp del: frames_arrive.simps(2))
  then show "readMessage d =
      (Inl (ErrorsNew ''slack: unexpected websocket continuation frame''), d')"
    unfolding readMessage_def by (subst readMessage_loop.simps) simp
next
  assume a: "(opcode1 = wsOpcodeText \<or> opcode1 = wsOpcodeBinary) \<and>
    (opcode2 = wsOpcodeText \<or> opcode2 = wsOpcodeBinary) \<and>
    frames_arrive e ((opcode1, False, q0) # map (\<lambda>p. (wsOpcodeContinuation, False, p)) qs @
                       [(opcode2, fin2, q)]) = Some e'"
  then obtain e1 where r: "readFrame e = (Inr (opcode1, False, q0), e1)"
    and rest: "frames_arrive e1 (map (\<lambda>p. (wsOpcodeContinuation, False, p)) qs @
                       [(opcode2, fin2, q)]) = Some e'"
    by (auto simp add: frames_arrive_Cons simp del: frames_arrive.simps(2))
  from a have o1: "opcode1 = wsOpcodeText \<or> opcode1 = wsOpcodeBinary"
    and o2: "opcode2 = wsOpcodeText \<or> opcode2 = wsOpcodeBinary" by blast+
  from readMessage_first_fragment [OF r o1]
  have "readMessage e = readMessage_loop q0 True e1" .
  with readMessage_loop_interrupted [OF rest o2, of q0]
  show "readMessage e = (Inl (ErrorsNew ''slack: unexpected websocket data frame''), e')"
    by simp
qed

theorem readMessage_reassembles_fragments_witness:
  "frames_arrive
     (idle_conn\<lparr>reader := \<lparr>pending = [0x01, 0x01, 0x61, 0x00, 0x01, 0x62, 0x80, 0x01, 0x63],
                              at_end = EOF\<rparr>\<rparr>)
     ((wsOpcodeText, False, [0x61]) # map (\<lambda>p. (wsOpcodeContinuation, False, p)) [[0x62]] @
        [(wsOpcodeContinuation, True, [0x63])]) =
     Some (idle_conn\<lparr>reader := \<lparr>pending = [], at_end = EOF\<rparr>\<rparr>) \<and>
   readMessage
     (idle_conn\<lparr>reader := \<lparr>pending = [0x01, 0x01, 0x61, 0x00, 0x01, 0x62, 0x80, 0x01, 0x63],
                              at_end = EOF\<rparr>\<rparr>) =
     (Inr [0x61, 0x62, 0x63], idle_conn\<lparr>reader := \<lparr>pending = [], at_end = EOF\<rparr>\<rparr>) \<and>
   readMessage (idle_conn\<lparr>reader := \<lparr>pending = [0x80, 0x01, 0x63], at_end = EOF\<rparr>\<rparr>) =
     (Inl (ErrorsNew ''slack: unexpected websocket continuation frame''),
      idle_conn\<lparr>reader := \<lparr>pending = [], at_end = EOF\<rparr>\<rparr>) \<and>
   readMessage
     (idle_conn\<lparr>reader := \<lparr>pending = [0x01, 0x01, 0x61, 0x82, 0x01, 0x62], at_end = EOF\<rparr>\<rparr>) =
     (Inl (ErrorsNew ''slack: unexpected websocket data frame''),
      idle_conn\<lparr>reader := \<lparr>pending = [], at_end = EOF\<rparr>\<rparr>)"
proof -
  have rf: "readFrame (idle_conn\<lparr>reader := \<lparr>pending = h0 # 0x01 # b # rest, at_end = EOF\<rparr>\<rparr>) =
     (Inr (h0 AND 0x0F, h0 AND 0x80 \<noteq> 0, [b]),
      idle_conn\<lparr>reader := \<lparr>pending = rest, at_end = EOF\<rparr>\<rparr>)" for h0 b rest
    by (simp add: readFrame_def read_bytes_pending readPayloadLength_def Let_def
          maxWebSocketFrameSize_def)
  have f1: "frames_arrive
     (idle_conn\<lparr>reader := \<lparr>pending = [0x01, 0x01, 0x61, 0x00, 0x01, 0x62, 0x80, 0x01, 0x63],
                              at_end = EOF\<rparr>\<rparr>)
     ((wsOpcodeText, False, [0x61]) # map (\<lambda>p. (wsOpcodeContinuation, False, p)) [[0x62]] @
        [(wsOpcodeContinuation, True, [0x63])]) =
     Some (idle_conn\<lparr>reader := \<lparr>pending = [], at_end = EOF\<rparr>\<rparr>)"
    by (simp add: rf wsOpcodeText_def wsOpcodeContinuation_def)
  have f2: "frames_arrive (idle_conn\<lparr>reader := \<lparr>pending = [0x80, 0x01, 0x63], at_end = EOF\<rparr>\<rparr>)
      [(wsOpcodeContinuation, True, [0x63])] =
     Some (idle_conn\<lparr>reader := \<lparr>pending = [], at_end = EOF\<rparr>\<rparr>)"
    by (simp add: rf wsOpcodeContinuation_def)
  have f3: "frames_arrive
     (idle_conn\<lparr>reader := \<lparr>pending = [0x01, 0x01, 0x61, 0x82, 0x01, 0x62], at_end = EOF\<rparr>\<rparr>)
     ((wsOpcodeText, False, [0x61]) # map (\<lambda>p. (wsOpcodeContinuation, False, p)) [] @
        [(wsOpcodeBinary, True, [0x62])]) =
     Some (idle_conn\<lparr>reader := \<lparr>pending = [], at_end = EOF\<rparr>\<rparr>)"
    by (simp add: rf wsOpcodeText_def wsOpcodeBinary_def)
  note t = readMessage_reassembles_fragments
    [where opcode = wsOpcodeText and ?p0.0 = "[0x61]" and mids = "[[0x62]]" and plast = "[0x63]"
       and c = "idle_conn\<lparr>reader := \<lparr>pending = [0x01, 0x01, 0x61, 0x00, 0x01, 0x62, 0x80, 0x01, 0x63],
                              at_end = EOF\<rparr>\<rparr>"
       and c' = "idle_conn\<lparr>reader := \<lparr>pending = [], at_end = EOF\<rparr>\<rparr>"
       and d = "idle_conn\<lparr>reader := \<lparr>pending = [0x80, 0x01, 0x63], at_end = EOF\<rparr>\<rparr>"
       and fin = True and p = "[0x63]"
       and d' = "idle_conn\<lparr>reader := \<lparr>pending = [], at_end = EOF\<rparr>\<rparr>"
       and ?opcode1.0 = wsOpcodeText and ?opcode2.0 = wsOpcodeBinary
       and e = "idle_conn\<lparr>reader := \<lparr>pending = [0x01, 0x01, 0x61, 0x82, 0x01, 0x62], at_end = EOF\<rparr>\<rparr>"
       and ?q0.0 = "[0x61]" and qs = "[]" and ?fin2.0 = True and q = "[0x62]"
       and e' = "idle_conn\<lparr>reader := \<lparr>pending = [], at_end = EOF\<rparr>\<rparr>"]
  from t f1 have a: "readMessage
     (idle_conn\<lparr>reader := \<lparr>pending = [0x01, 0x01, 0x61, 0x00, 0x01, 0x62, 0x80, 0x01, 0x63],
                              at_end = EOF\<rparr>\<rparr>) =
     (Inr ([0x61] @ concat [[0x62]] @ [0x63]), idle_conn\<lparr>reader := \<lparr>pending = [], at_end = EOF\<rparr>\<rparr>)"
    by blast
  from t f2 have b: "readMessage (idle_conn\<lparr>reader := \<lparr>pending = [0x80, 0x01, 0x63], at_end = EOF\<rparr>\<rparr>) =
     (Inl (ErrorsNew ''slack: unexpected websocket continuation frame''),
      idle_conn\<lparr>reader := \<lparr>pending = [], at_end = EOF\<rparr>\<rparr>)"
    by blast
  from t f3 have c: "readMessage
     (idle_conn\<lparr>reader := \<lparr>pending = [0x01, 0x01, 0x61, 0x82, 0x01, 0x62], at_end = EOF\<rparr>\<rparr>) =
     (Inl (ErrorsNew ''slack: unexpected websocket data frame''),
      idle_conn\<lparr>reader := \<lparr>pending = [], at_end = EOF\<rparr>\<rparr>)"
    by blast
  from a have a': "readMessage
     (idle_conn\<lparr>reader := \<lparr>pending = [0x01, 0x01, 0x61, 0x00, 0x01, 0x62, 0x80, 0x01, 0x63],
                              at_end = EOF\<rparr>\<rparr>) =
     (Inr [0x61, 0x62, 0x63], idle_conn\<lparr>reader := \<lparr>pending = [], at_end = EOF\<rparr>\<rparr>)"
    by simp
  from f1 a' b c show ?thesis by blast
qed

lemma read_bytes_wire:
  "read_bytes n c = (res, c1) \<Longrightarrow> wire c1 = wire c \<and> conn_open c1 = conn_open c"
  by (auto simp add: read_bytes_def split: prod.splits)

lemma readPayloadLength_wire:
  "readPayloadLength b c = (res, c1) \<Longrightarrow> wire c1 = wire c \<and> conn_open c1 = conn_open c"
  unfolding readPayloadLength_def
  by (auto split: prod.splits sum.splits if_splits dest: read_bytes_wire)

lemma readFrame_wire:
  assumes "readFrame c = (res, c1)"
  shows "wire c1 = wire c \<and> conn_open c1 = conn_open c"
proof -
  obtain r0 c0 where r0: "read_bytes 2 c = (r0, c0)" by (cases "read_bytes 2 c")
  note w0 = read_bytes_wire [OF r0]
  show ?thesis
  proof (cases r0)
    case (Inl err)
    with assms r0 w0 show ?thesis by (simp add: readFrame_def)
  next
    case (Inr header)
    obtain rl cl where rl: "readPayloadLength (header ! 1 AND 0x7F) c0 = (rl, cl)"
      by (cases "readPayloadLength (header ! 1 AND 0x7F) c0")
    note wl = readPayloadLength_wire [OF rl]
    show ?thesis
    proof (cases rl)
      case (Inl err)
      with assms r0 Inr rl w0 wl show ?thesis by (simp add: readFrame_def Let_def)
    next
      case (Inr n)
      with assms r0 \<open>r0 = Inr header\<close> rl w0 wl show ?thesis
        by (auto simp add: readFrame_def Let_def split: if_splits prod.splits sum.splits
            dest!: read_bytes_wire)
    qed
  qed
qed

lemma writeFrame_ok:
  assumes "conn_open c" "rand_Read c (rand_calls c) = Inr (m0, m1, m2, m3)"
    "write_result c (length (wire c)) = None"
  shows "writeFrame opcode payload c =
     (None, c\<lparr>rand_calls := Suc (rand_calls c),
              wire := wire c @ [projr (buildClientFrame opcode payload (Inr (m0, m1, m2, m3)))]\<rparr>)"
  using assms by (simp add: writeFrame_def buildClientFrame_def Let_def)

lemma writeFrame_wire_grows:
  "writeFrame opcode payload c = (res, c2) \<Longrightarrow> length (wire c2) \<le> length (wire c) + 1"
  by (auto simp add: writeFrame_def split: if_splits sum.splits)

text \<open>
  C8, as stated, fails on a connection that has been closed (\<open>c.conn == nil\<close>,
  which \<open>Close\<close> sets, for instance from the cancellation watcher) while a ping is
  still buffered in the reader: \<open>writeFrame\<close> returns \<open>io.ErrClosedPipe\<close>, no pong
  is written and \<open>readMessage\<close> returns the error instead of reading on.
\<close>

theorem readMessage_ping_closed_counterexample:
  "readFrame (idle_conn\<lparr>conn_open := False,
                         reader := \<lparr>pending = [0x89, 0x01, 0x58], at_end = EOF\<rparr>\<rparr>) =
     (Inr (wsOpcodePing, True, [0x58]),
      idle_conn\<lparr>conn_open := False, reader := \<lparr>pending = [], at_end = EOF\<rparr>\<rparr>) \<and>
   readMessage (idle_conn\<lparr>conn_open := False,
                           reader := \<lparr>pending = [0x89, 0x01, 0x58], at_end = EOF\<rparr>\<rparr>) =
     (Inl ErrClosedPipe,
      idle_conn\<lparr>conn_open := False, reader := \<lparr>pending = [], at_end = EOF\<rparr>\<rparr>) \<and>
   wire (snd (readMessage (idle_conn\<lparr>conn_open := False,
                           reader := \<lparr>pending = [0x89, 0x01, 0x58], at_end = EOF\<rparr>\<rparr>))) = []"
proof -
  have r: "readFrame (idle_conn\<lparr>conn_open := False,
                         reader := \<lparr>pending = [0x89, 0x01, 0x58], at_end = EOF\<rparr>\<rparr>) =
     (Inr (wsOpcodePing, True, [0x58]),
      idle_conn\<lparr>conn_open := False, reader := \<lparr>pending = [], at_end = EOF\<rparr>\<rparr>)"
    by (simp add: readFrame_def read_bytes_def io_ReadFull_def readPayloadLength_def Let_def
          maxWebSocketFrameSize_def wsOpcodePing_def idle_conn_def)
  have m: "readMessage (idle_conn\<lparr>conn_open := False,
                           reader := \<lparr>pending = [0x89, 0x01, 0x58], at_end = EOF\<rparr>\<rparr>) =
     (Inl ErrClosedPipe,
      idle_conn\<lparr>conn_open := False, reader := \<lparr>pending = [], at_end = EOF\<rparr>\<rparr>)"
    unfolding readMessage_def
    by (subst readMessage_loop.simps) (simp add: r writeFrame_def)
  show ?thesis by (simp add: r m) (simp add: idle_conn_def)
qed

text \<open>
  C8, amended. When \<open>readMessage\<close> decodes a ping with payload \<open>X\<close> and the pong can
  be written (the connection is not closed, the mask is generated, the write
  succeeds), exactly one frame is added to what has been written, that frame
  decodes to a pong with FIN set and payload \<open>X\<close>, and the loop reads on with its
  buffer and fragmentation state unchanged, so the ping is not returned as a
  message. When \<open>writeFrame\<close> fails, \<open>readMessage\<close> returns its error, with at most
  one frame handed to the connection. A pong is skipped without any write. This
  holds in every state of the loop, \<open>readMessage c\<close> being
  \<open>readMessage_loop [] False c\<close>.
\<close>

theorem readMessage_ping_pong:
  "(readFrame c = (Inr (wsOpcodePing, fin, X), c1) \<and> conn_open c1 \<and>
    rand_Read c1 (rand_calls c1) = Inr (m0, m1, m2, m3) \<and>
    write_result c1 (length (wire c1)) = None \<longrightarrow>
      readMessage_loop buffer expectContinuation c =
        readMessage_loop buffer expectContinuation
          (c1\<lparr>rand_calls := Suc (rand_calls c1),
              wire := wire c @ [projr (buildClientFrame wsOpcodePong X (Inr (m0, m1, m2, m3)))]\<rparr>) \<and>
      readFrame (d\<lparr>reader :=
          \<lparr>pending = projr (buildClientFrame wsOpcodePong X (Inr (m0, m1, m2, m3))) @ rest,
           at_end = e\<rparr>\<rparr>) =
        (Inr (wsOpcodePong, True, X), d\<lparr>reader := \<lparr>pending = rest, at_end = e\<rparr>\<rparr>)) \<and>
   (readFrame c = (Inr (wsOpcodePing, fin, X), c1) \<and>
    writeFrame wsOpcodePong X c1 = (Some err, c2) \<longrightarrow>
      readMessage_loop buffer expectContinuation c = (Inl err, c2) \<and>
      length (wire c2) \<le> length (wire c) + 1) \<and>
   (readFrame c = (Inr (wsOpcodePong, fin, X), c1) \<longrightarrow>
      readMessage_loop buffer expectContinuation c =
        readMessage_loop buffer expectContinuation c1 \<and>
      wire c1 = wire c)"
proof (intro conjI impI)
  assume a: "readFrame c = (Inr (wsOpcodePing, fin, X), c1) \<and> conn_open c1 \<and>
    rand_Read c1 (rand_calls c1) = Inr (m0, m1, m2, m3) \<and>
    write_result c1 (length (wire c1)) = None"
  then have r: "readFrame c = (Inr (wsOpcodePing, fin, X), c1)" by blast
  from a have w: "writeFrame wsOpcodePong X c1 =
     (None, c1\<lparr>rand_calls := Suc (rand_calls c1),
              wire := wire c1 @ [projr (buildClientFrame wsOpcodePong X (Inr (m0, m1, m2, m3)))]\<rparr>)"
    by (intro writeFrame_ok) blast+
  from readFrame_wire [OF r] have wc: "wire c1 = wire c" by blast
  show "readMessage_loop buffer expectContinuation c =
        readMessage_loop buffer expectContinuation
          (c1\<lparr>rand_calls := Suc (rand_calls c1),
              wire := wire c @ [projr (buildClientFrame wsOpcodePong X (Inr (m0, m1, m2, m3)))]\<rparr>)"
    by (subst readMessage_loop.simps) (simp add: r w wc)
  have len: "length X \<le> maxWebSocketFrameSize"
    using readFrame_payload_bound [OF r] .
  have enc: "buildClientFrame wsOpcodePong X (Inr (m0, m1, m2, m3)) =
      Inr (projr (buildClientFrame wsOpcodePong X (Inr (m0, m1, m2, m3))))"
    by (simp add: buildClientFrame_def Let_def)
  have op: "wsOpcodePong < 16" by (simp add: wsOpcodePong_def)
  from readFrame_buildClientFrame [OF op len enc]
  show "readFrame (d\<lparr>reader :=
          \<lparr>pending = projr (buildClientFrame wsOpcodePong X (Inr (m0, m1, m2, m3))) @ rest,
           at_end = e\<rparr>\<rparr>) =
        (Inr (wsOpcodePong, True, X), d\<lparr>reader := \<lparr>pending = rest, at_end = e\<rparr>\<rparr>)" .
next
  assume a: "readFrame c = (Inr (wsOpcodePing, fin, X), c1) \<and>
    writeFrame wsOpcodePong X c1 = (Some err, c2)"
  then have r: "readFrame c = (Inr (wsOpcodePing, fin, X), c1)"
    and w: "writeFrame wsOpcodePong X c1 = (Some err, c2)" by blast+
  show "readMessage_loop buffer expectContinuation c = (Inl err, c2)"
    by (subst readMessage_loop.simps) (simp add: r w)
  from writeFrame_wire_grows [OF w] readFrame_wire [OF r]
  show "length (wire c2) \<le> length (wire c) + 1" by simp
next
  assume r: "readFrame c = (Inr (wsOpcodePong, fin, X), c1)"
  show "readMessage_loop buffer expectContinuation c =
        readMessage_loop buffer expectContinuation c1"
    by (subst readMessage_loop.simps) (simp add: r)
  from readFrame_wire [OF r] show "wire c1 = wire c" by blast
qed

theorem readMessage_ping_pong_witness:
  "readFrame (idle_conn\<lparr>reader := \<lparr>pending = [0x89, 0x01, 0x58, 0x81, 0x01, 0x41], at_end = EOF\<rparr>\<rparr>) =
     (Inr (wsOpcodePing, True, [0x58]),
      idle_conn\<lparr>reader := \<lparr>pending = [0x81, 0x01, 0x41], at_end = EOF\<rparr>\<rparr>) \<and>
   readMessage (idle_conn\<lparr>reader := \<lparr>pending = [0x89, 0x01, 0x58, 0x81, 0x01, 0x41], at_end = EOF\<rparr>\<rparr>) =
     (Inr [0x41],
      idle_conn\<lparr>reader := \<lparr>pending = [], at_end = EOF\<rparr>, rand_calls := 1,
                 wire := [[0x8A, 0x81, 0x12, 0x34, 0x56, 0x78, 0x4A]]\<rparr>) \<and>
   readFrame (idle_conn\<lparr>reader :=
       \<lparr>pending = [0x8A, 0x81, 0x12, 0x34, 0x56, 0x78, 0x4A], at_end = EOF\<rparr>\<rparr>) =
     (Inr (wsOpcodePong, True, [0x58]), idle_conn\<lparr>reader := \<lparr>pending = [], at_end = EOF\<rparr>\<rparr>) \<and>
   writeFrame wsOpcodePong [0x58]
       (idle_conn\<lparr>write_result := (\<lambda>k. Some ErrClosedPipe),
                  reader := \<lparr>pending = [], at_end = EOF\<rparr>\<rparr>) =
     (Some (Wrapf ''slack: write websocket frame'' ErrClosedPipe),
      idle_conn\<lparr>write_result := (\<lambda>k. Some ErrClosedPipe),
                 reader := \<lparr>pending = [], at_end = EOF\<rparr>, rand_calls := 1,
                 wire := [[0x8A, 0x81, 0x12, 0x34, 0x56, 0x78, 0x4A]]\<rparr>) \<and>
   readMessage (idle_conn\<lparr>write_result := (\<lambda>k. Some ErrClosedPipe),
                          reader := \<lparr>pending = [0x89, 0x01, 0x58], at_end = EOF\<rparr>\<rparr>) =
     (Inl (Wrapf ''slack: write websocket frame'' ErrClosedPipe),
      idle_conn\<lparr>write_result := (\<lambda>k. Some ErrClosedPipe),
                 reader := \<lparr>pending = [], at_end = EOF\<rparr>, rand_calls := 1,
                 wire := [[0x8A, 0x81, 0x12, 0x34, 0x56, 0x78, 0x4A]]\<rparr>) \<and>
   readMessage (idle_conn\<lparr>reader := \<lparr>pending = [0x8A, 0x00, 0x81, 0x01, 0x41], at_end = EOF\<rparr>\<rparr>) =
     (Inr [0x41], idle_conn\<lparr>reader := \<lparr>pending = [], at_end = EOF\<rparr>\<rparr>)"
proof -
  have rf: "readFrame (c\<lparr>reader := \<lparr>pending = h0 # 0x01 # b # rest, at_end = EOF\<rparr>\<rparr>) =
     (Inr (h0 AND 0x0F, h0 AND 0x80 \<noteq> 0, [b]),
      c\<lparr>reader := \<lparr>pending = rest, at_end = EOF\<rparr>\<rparr>)" for c h0 b rest
    by (simp add: readFrame_def read_bytes_pending readPayloadLength_def Let_def
          maxWebSocketFrameSize_def)
  have rf0: "readFrame (c\<lparr>reader := \<lparr>pending = h0 # 0x00 # rest, at_end = EOF\<rparr>\<rparr>) =
     (Inr (h0 AND 0x0F, h0 AND 0x80 \<noteq> 0, []),
      c\<lparr>reader := \<lparr>pending = rest, at_end = EOF\<rparr>\<rparr>)" for c h0 rest
    by (simp add: readFrame_def read_bytes_pending readPayloadLength_def Let_def
          maxWebSocketFrameSize_def)
  have tframe: "readMessage_loop [] False (c\<lparr>reader := \<lparr>pending = [0x81, 0x01, 0x41], at_end = EOF\<rparr>\<rparr>) =
     (Inr [0x41], c\<lparr>reader := \<lparr>pending = [], at_end = EOF\<rparr>\<rparr>)" for c
    by (subst readMessage_loop.simps) (simp add: rf wsOpcodeText_def)
  have pongframe: "projr (buildClientFrame wsOpcodePong [0x58] (Inr (0x12, 0x34, 0x56, 0x78))) =
      [0x8A, 0x81, 0x12, 0x34, 0x56, 0x78, 0x4A]"
    by (simp add: buildClientFrame_def xor_mask_def wsOpcodePong_def)
  have r1: "readFrame (idle_conn\<lparr>reader := \<lparr>pending = [0x89, 0x01, 0x58, 0x81, 0x01, 0x41], at_end = EOF\<rparr>\<rparr>) =
     (Inr (wsOpcodePing, True, [0x58]),
      idle_conn\<lparr>reader := \<lparr>pending = [0x81, 0x01, 0x41], at_end = EOF\<rparr>\<rparr>)"
    by (simp add: rf wsOpcodePing_def)
  have h1: "conn_open (idle_conn\<lparr>reader := \<lparr>pending = [0x81, 0x01, 0x41], at_end = EOF\<rparr>\<rparr>)"
    "rand_Read (idle_conn\<lparr>reader := \<lparr>pending = [0x81, 0x01, 0x41], at_end = EOF\<rparr>\<rparr>)
       (rand_calls (idle_conn\<lparr>reader := \<lparr>pending = [0x81, 0x01, 0x41], at_end = EOF\<rparr>\<rparr>)) =
       Inr (0x12, 0x34, 0x56, 0x78)"
    "write_result (idle_conn\<lparr>reader := \<lparr>pending = [0x81, 0x01, 0x41], at_end = EOF\<rparr>\<rparr>)
       (length (wire (idle_conn\<lparr>reader := \<lparr>pending = [0x81, 0x01, 0x41], at_end = EOF\<rparr>\<rparr>))) = None"
    by (simp_all add: idle_conn_def)
  note t1 = readMessage_ping_pong
    [where c = "idle_conn\<lparr>reader := \<lparr>pending = [0x89, 0x01, 0x58, 0x81, 0x01, 0x41], at_end = EOF\<rparr>\<rparr>"
       and fin = True and X = "[0x58]"
       and ?c1.0 = "idle_conn\<lparr>reader := \<lparr>pending = [0x81, 0x01, 0x41], at_end = EOF\<rparr>\<rparr>"
       and ?m0.0 = "0x12" and ?m1.0 = "0x34" and ?m2.0 = "0x56" and ?m3.0 = "0x78"
       and buffer = "[]" and expectContinuation = False
       and d = idle_conn and rest = "[]" and e = EOF]
  from t1 r1 h1 have a: "readMessage_loop [] False
        (idle_conn\<lparr>reader := \<lparr>pending = [0x89, 0x01, 0x58, 0x81, 0x01, 0x41], at_end = EOF\<rparr>\<rparr>) =
      readMessage_loop [] False
        (idle_conn\<lparr>reader := \<lparr>pending = [0x81, 0x01, 0x41], at_end = EOF\<rparr>\<rparr>
          \<lparr>rand_calls := Suc (rand_calls (idle_conn\<lparr>reader := \<lparr>pending = [0x81, 0x01, 0x41], at_end = EOF\<rparr>\<rparr>)),
           wire := wire (idle_conn\<lparr>reader := \<lparr>pending = [0x89, 0x01, 0x58, 0x81, 0x01, 0x41], at_end = EOF\<rparr>\<rparr>) @
                   [projr (buildClientFrame wsOpcodePong [0x58] (Inr (0x12, 0x34, 0x56, 0x78)))]\<rparr>)"
    and b: "readFrame (idle_conn\<lparr>reader :=
          \<lparr>pending = projr (buildClientFrame wsOpcodePong [0x58] (Inr (0x12, 0x34, 0x56, 0x78))) @ [],
           at_end = EOF\<rparr>\<rparr>) =
        (Inr (wsOpcodePong, True, [0x58]), idle_conn\<lparr>reader := \<lparr>pending = [], at_end = EOF\<rparr>\<rparr>)"
    by blast+
  have a': "readMessage (idle_conn\<lparr>reader := \<lparr>pending = [0x89, 0x01, 0x58, 0x81, 0x01, 0x41], at_end = EOF\<rparr>\<rparr>) =
     (Inr [0x41],
      idle_conn\<lparr>reader := \<lparr>pending = [], at_end = EOF\<rparr>, rand_calls := 1,
                 wire := [[0x8A, 0x81, 0x12, 0x34, 0x56, 0x78, 0x4A]]\<rparr>)"
    unfolding readMessage_def a pongframe
    using tframe [of "idle_conn\<lparr>rand_calls := 1, wire := [[0x8A, 0x81, 0x12, 0x34, 0x56, 0x78, 0x4A]]\<rparr>"]
    by (simp add: idle_conn_def)
  from b have b': "readFrame (idle_conn\<lparr>reader :=
       \<lparr>pending = [0x8A, 0x81, 0x12, 0x34, 0x56, 0x78, 0x4A], at_end = EOF\<rparr>\<rparr>) =
     (Inr (wsOpcodePong, True, [0x58]), idle_conn\<lparr>reader := \<lparr>pending = [], at_end = EOF\<rparr>\<rparr>)"
    by (simp add: pongframe)
  have r2: "readFrame (idle_conn\<lparr>write_result := (\<lambda>k. Some ErrClosedPipe),
                          reader := \<lparr>pending = [0x89, 0x01, 0x58], at_end = EOF\<rparr>\<rparr>) =
     (Inr (wsOpcodePing, True, [0x58]),
      idle_conn\<lparr>write_result := (\<lambda>k. Some ErrClosedPipe),
                 reader := \<lparr>pending = [], at_end = EOF\<rparr>\<rparr>)"
    by (simp add: rf wsOpcodePing_def)
  have w2: "writeFrame wsOpcodePong [0x58]
       (idle_conn\<lparr>write_result := (\<lambda>k. Some ErrClosedPipe),
                  reader := \<lparr>pending = [], at_end = EOF\<rparr>\<rparr>) =
     (Some (Wrapf ''slack: write websocket frame'' ErrClosedPipe),
      idle_conn\<lparr>write_result := (\<lambda>k. Some ErrClosedPipe),
                 reader := \<lparr>pending = [], at_end = EOF\<rparr>, rand_calls := 1,
                 wire := [[0x8A, 0x81, 0x12, 0x34, 0x56, 0x78, 0x4A]]\<rparr>)"
    by (simp add: writeFrame_def idle_conn_def buildClientFrame_def xor_mask_def wsOpcodePong_def)
  note t2 = readMessage_ping_pong
    [where c = "idle_conn\<lparr>write_result := (\<lambda>k. Some ErrClosedPipe),
                          reader := \<lparr>pending = [0x89, 0x01, 0x58], at_end = EOF\<rparr>\<rparr>"
       and fin = True and X = "[0x58]"
       and ?c1.0 = "idle_conn\<lparr>write_result := (\<lambda>k. Some ErrClosedPipe),
                 reader := \<lparr>pending = [], at_end = EOF\<rparr>\<rparr>"
       and err = "Wrapf ''slack: write websocket frame'' ErrClosedPipe"
       and ?c2.0 = "idle_conn\<lparr>write_result := (\<lambda>k. Some ErrClosedPipe),
                 reader := \<lparr>pending = [], at_end = EOF\<rparr>, rand_calls := 1,
                 wire := [[0x8A, 0x81, 0x12, 0x34, 0x56, 0x78, 0x4A]]\<rparr>"
       and buffer = "[]" and expectContinuation = False]
  from t2 r2 w2 have c: "readMessage (idle_conn\<lparr>write_result := (\<lambda>k. Some ErrClosedPipe),
                          reader := \<lparr>pending = [0x89, 0x01, 0x58], at_end = EOF\<rparr>\<rparr>) =
     (Inl (Wrapf ''slack: write websocket frame'' ErrClosedPipe),
      idle_conn\<lparr>write_result := (\<lambda>k. Some ErrClosedPipe),
                 reader := \<lparr>pending = [], at_end = EOF\<rparr>, rand_calls := 1,
                 wire := [[0x8A, 0x81, 0x12, 0x34, 0x56, 0x78, 0x4A]]\<rparr>)"
    unfolding readMessage_def by blast
  have r3: "readFrame (idle_conn\<lparr>reader := \<lparr>pending = [0x8A, 0x00, 0x81, 0x01, 0x41], at_end = EOF\<rparr>\<rparr>) =
     (Inr (wsOpcodePong, True, []),
      idle_conn\<lparr>reader := \<lparr>pending = [0x81, 0x01, 0x41], at_end = EOF\<rparr>\<rparr>)"
    by (simp add: rf0 wsOpcodePong_def)
  note t3 = readMessage_ping_pong
    [where c = "idle_conn\<lparr>reader := \<lparr>pending = [0x8A, 0x00, 0x81, 0x01, 0x41], at_end = EOF\<rparr>\<rparr>"
       and fin = True and X = "[]"
       and ?c1.0 = "idle_conn\<lparr>reader := \<lparr>pending = [0x81, 0x01, 0x41], at_end = EOF\<rparr>\<rparr>"
       and buffer = "[]" and expectContinuation = False]
  from t3 r3 have "readMessage_loop [] False
       (idle_conn\<lparr>reader := \<lparr>pending = [0x8A, 0x00, 0x81, 0x01, 0x41], at_end = EOF\<rparr>\<rparr>) =
     readMessage_loop [] False (idle_conn\<lparr>reader := \<lparr>pending = [0x81, 0x01, 0x41], at_end = EOF\<rparr>\<rparr>)"
    by blast
  with tframe [of idle_conn]
  have d: "readMessage (idle_conn\<lparr>reader := \<lparr>pending = [0x8A, 0x00, 0x81, 0x01, 0x41], at_end = EOF\<rparr>\<rparr>) =
     (Inr [0x41], idle_conn\<lparr>reader := \<lparr>pending = [], at_end = EOF\<rparr>\<rparr>)"
    unfolding readMessage_def by simp
  from r1 a' b' w2 c d show ?thesis by blast
qed

section \<open>The handshake deadline\<close>

text \<open>
  C6, as stated, fails when the caller's context has a deadline later than ten
  seconds from now: the context's deadline replaces the default without being
  compared with it. Here the handshake starts at instant 0 under a context that
  expires after one hour, succeeds, and runs under the one-hour deadline.
\<close>

theorem handshake_under_late_ctx_deadline_counterexample:
  "websocketClientHandshake \<lparr>cancelled_at = None, Deadline = Some 3600000000000\<rparr> 0 plain_env =
     (3600000000000, None) \<and>
   \<not> 3600000000000 \<le> 0 + webSocketHandshakeTimeout"
  by (simp add: websocketClientHandshake_def plain_env_def wsAcceptKey_def
        webSocketHandshakeTimeout_def)

text \<open>
  C6, amended. The deadline given to \<open>conn.SetDeadline\<close> is the deadline of the
  caller's context whenever the context has one, earlier or later than the
  default, and ten seconds after the start of the handshake otherwise; so it is
  within ten seconds of the start exactly when the context has no deadline or one
  that is within ten seconds itself.
\<close>

theorem websocketClientHandshake_deadline:
  "fst (websocketClientHandshake ctx start env) =
     (case Deadline ctx of None \<Rightarrow> start + webSocketHandshakeTimeout | Some d \<Rightarrow> d) \<and>
   (fst (websocketClientHandshake ctx start env) \<le> start + webSocketHandshakeTimeout) =
     (case Deadline ctx of None \<Rightarrow> True | Some d \<Rightarrow> d \<le> start + webSocketHandshakeTimeout)"
  by (simp add: websocketClientHandshake_def Let_def split: option.splits)

section \<open>The processing loop\<close>

lemma TrimSpace_empty_iff: "TrimSpace s = [] \<longleftrightarrow> (\<forall>r \<in> set s. IsSpace r)"
proof
  assume "TrimSpace s = []"
  then have all: "\<forall>x \<in> set (dropWhile IsSpace s). IsSpace x"
    by (simp add: TrimSpace_def dropWhile_eq_Nil_conv)
  have "dropWhile IsSpace s = []"
  proof (rule ccontr)
    assume ne: "dropWhile IsSpace s \<noteq> []"
    then have "\<not> IsSpace (hd (dropWhile IsSpace s))" by (rule hd_dropWhile)
    moreover from ne have "hd (dropWhile IsSpace s) \<in> set (dropWhile IsSpace s)" by simp
    ultimately show False using all by blast
  qed
  then show "\<forall>r \<in> set s. IsSpace r" by (simp add: dropWhile_eq_Nil_conv)
next
  assume "\<forall>r \<in> set s. IsSpace r"
  then have "dropWhile IsSpace s = []" by (simp add: dropWhile_eq_Nil_conv)
  then show "TrimSpace s = []" unfolding TrimSpace_def by (simp del: dropWhile_eq_Nil_conv)
qed

lemma handler_response_fst:
  "fst (handler_response c handler event log) = fst (handler_response c handler event [])"
  by (simp add: handler_response_def split: option.splits prod.splits)

lemma processConnection_step:
  "ReadJSON conn = Some (d, Inr event, conn1) \<Longrightarrow>
   processConnection c handler conn t log =
     (if TrimSpace (EnvelopeID event) = [] then
        processConnection c handler conn1 (t + int d) (snd (handler_response c handler event log))
      else
        (case WriteJSON (build_ack event (fst (handler_response c handler event log))) conn1 of
           (Some err, conn2) \<Rightarrow>
              Some (err, conn2, t + int d, snd (handler_response c handler event log))
         | (None, conn2) \<Rightarrow>
              processConnection c handler conn2 (t + int d)
                (snd (handler_response c handler event log))))"
  by (subst processConnection.simps) (auto split: prod.splits option.splits)

lemma acks_due_Cons_event:
  "acks_due c handler ((d, Inr event) # consumed) =
     (if TrimSpace (EnvelopeID event) = [] then []
      else [build_ack event (fst (handler_response c handler event []))]) @
     acks_due c handler consumed"
  by (simp add: acks_due_def)

lemma processConnection_trace_aux:
  "inbox conn = xs \<Longrightarrow>
   processConnection c handler conn t log = Some (err, conn', t', log') \<Longrightarrow>
   (\<exists>consumed. xs = consumed @ inbox conn' \<and>
      writes conn' = writes conn @ acks_due c handler consumed)"
proof (induction xs arbitrary: conn t log)
  case Nil
  then show ?case
    by (subst (asm) processConnection.simps) (simp add: ReadJSON_def)
next
  case (Cons x rest)
  obtain d res where x: "x = (d, res)" by (cases x)
  have rj: "ReadJSON conn = Some (d, res, conn\<lparr>inbox := rest\<rparr>)"
    using Cons.prems(1) by (simp add: ReadJSON_def x)
  show ?case
  proof (cases res)
    case (Inl e)
    with Cons.prems(2) rj have "conn' = conn\<lparr>inbox := rest\<rparr>"
      by (subst (asm) processConnection.simps) simp
    then show ?thesis
      by (intro exI[of _ "[x]"]) (simp add: acks_due_def x Inl)
  next
    case (Inr event)
    let ?log1 = "snd (handler_response c handler event log)"
    let ?ack = "build_ack event (fst (handler_response c handler event []))"
    note step = processConnection_step [OF rj [unfolded Inr], of c handler t log]
    show ?thesis
    proof (cases "TrimSpace (EnvelopeID event) = []")
      case True
      with step Cons.prems(2)
      have "processConnection c handler (conn\<lparr>inbox := rest\<rparr>) (t + int d) ?log1 =
              Some (err, conn', t', log')" by simp
      from Cons.IH [OF _ this] obtain consumed where
        "rest = consumed @ inbox conn'" "writes conn' = writes conn @ acks_due c handler consumed"
        by auto
      then show ?thesis
        by (intro exI[of _ "x # consumed"]) (simp add: x Inr acks_due_Cons_event True)
    next
      case False
      let ?conn2 = "conn\<lparr>inbox := rest, writes := writes conn @ [?ack]\<rparr>"
      have w: "WriteJSON (build_ack event (fst (handler_response c handler event log)))
                 (conn\<lparr>inbox := rest\<rparr>) =
               (WriteJSON_result conn (length (writes conn)) ?ack, ?conn2)"
        by (simp add: WriteJSON_def handler_response_fst [of c handler event log])
      show ?thesis
      proof (cases "WriteJSON_result conn (length (writes conn)) ?ack")
        case None
        with step Cons.prems(2) False w
        have "processConnection c handler ?conn2 (t + int d) ?log1 =
                Some (err, conn', t', log')" by simp
        from Cons.IH [OF _ this] obtain consumed where
          "rest = consumed @ inbox conn'"
          "writes conn' = (writes conn @ [?ack]) @ acks_due c handler consumed"
          by auto
        then show ?thesis
          by (intro exI[of _ "x # consumed"]) (simp add: x Inr acks_due_Cons_event False)
      next
        case (Some werr)
        with step Cons.prems(2) False w have "conn' = ?conn2" by simp
        then show ?thesis
          by (intro exI[of _ "[x]"]) (simp add: x Inr acks_due_Cons_event False acks_due_def)
      qed
    qed
  qed
qed

lemma processConnection_trace:
  assumes "processConnection c handler conn t log = Some (err, conn', t', log')"
  shows "inbox conn = take (length (inbox conn) - length (inbox conn')) (inbox conn) @ inbox conn'"
    and "writes conn' = writes conn @
           acks_due c handler (take (length (inbox conn) - length (inbox conn')) (inbox conn))"
proof -
  from processConnection_trace_aux [OF refl assms] obtain consumed where
    c: "inbox conn = consumed @ inbox conn'"
       "writes conn' = writes conn @ acks_due c handler consumed" by blast
  then have "take (length (inbox conn) - length (inbox conn')) (inbox conn) = consumed" by simp
  with c show "inbox conn = take (length (inbox conn) - length (inbox conn')) (inbox conn) @ inbox conn'"
    and "writes conn' = writes conn @
           acks_due c handler (take (length (inbox conn) - length (inbox conn')) (inbox conn))"
    by simp_all
qed

text \<open>
  C1, as stated, fails for an envelope id that is not empty but consists of white
  space: the loop tests \<open>strings.TrimSpace(event.EnvelopeID) == ""\<close>, so for the id
  \<open>" "\<close> nothing is written.
\<close>

theorem processConnection_whitespace_id_counterexample:
  "EnvelopeID (event_with_id [0x20] True) \<noteq> [] \<and>
   processConnection (client_with_delay 0) (Some (\<lambda>event. (Some ''ok'', None)))
       (scripted_conn [(0, Inr (event_with_id [0x20] True)), (0, Inl EOF)]) 0 [] =
     Some (EOF, scripted_conn [], 0, []) \<and>
   writes (scripted_conn []) = []"
  by (simp add: processConnection.simps ReadJSON_def scripted_conn_def event_with_id_def
        handler_response_def TrimSpace_def IsSpace_def)

lemma processConnection_total:
  "inbox conn = map (\<lambda>(d, event). (d, Inr event)) evs @ (d', Inl err) # later \<Longrightarrow>
   (\<forall>k v. WriteJSON_result conn k v = None) \<Longrightarrow>
   processConnection c handler conn t log =
     Some (err,
           conn\<lparr>inbox := later,
                writes := writes conn @
                  acks_due c handler (map (\<lambda>(d, event). (d, Inr event)) evs)\<rparr>,
           t + int (sum_list (map fst evs) + d'),
           foldl (\<lambda>lg (d, event). snd (handler_response c handler event lg)) log evs)"
proof (induction evs arbitrary: conn t log)
  case Nil
  then have rj: "ReadJSON conn = Some (d', Inl err, conn\<lparr>inbox := later\<rparr>)"
    by (simp add: ReadJSON_def)
  show ?case
    by (subst processConnection.simps) (simp add: rj acks_due_def)
next
  case (Cons x evs)
  obtain d event where x: "x = (d, event)" by (cases x)
  let ?rest = "map (\<lambda>(d, event). (d, Inr event)) evs @ (d', Inl err) # later"
  let ?log1 = "snd (handler_response c handler event log)"
  let ?ack = "build_ack event (fst (handler_response c handler event []))"
  from Cons.prems(1) have rj: "ReadJSON conn = Some (d, Inr event, conn\<lparr>inbox := ?rest\<rparr>)"
    by (simp add: ReadJSON_def x)
  note step = processConnection_step [OF rj, of c handler t log]
  show ?case
  proof (cases "TrimSpace (EnvelopeID event) = []")
    case True
    have "processConnection c handler (conn\<lparr>inbox := ?rest\<rparr>) (t + int d) ?log1 =
        Some (err,
           conn\<lparr>inbox := ?rest\<rparr>\<lparr>inbox := later,
                writes := writes (conn\<lparr>inbox := ?rest\<rparr>) @
                  acks_due c handler (map (\<lambda>(d, event). (d, Inr event)) evs)\<rparr>,
           t + int d + int (sum_list (map fst evs) + d'),
           foldl (\<lambda>lg (d, event). snd (handler_response c handler event lg)) ?log1 evs)"
      using Cons.prems(2) by (intro Cons.IH) simp_all
    with step True show ?thesis
      by (simp add: x acks_due_Cons_event)
  next
    case False
    let ?conn2 = "conn\<lparr>inbox := ?rest, writes := writes conn @ [?ack]\<rparr>"
    have w: "WriteJSON (build_ack event (fst (handler_response c handler event log)))
                 (conn\<lparr>inbox := ?rest\<rparr>) = (None, ?conn2)"
      using Cons.prems(2)
      by (simp add: WriteJSON_def handler_response_fst [of c handler event log])
    have "processConnection c handler ?conn2 (t + int d) ?log1 =
        Some (err,
           ?conn2\<lparr>inbox := later,
                writes := writes ?conn2 @
                  acks_due c handler (map (\<lambda>(d, event). (d, Inr event)) evs)\<rparr>,
           t + int d + int (sum_list (map fst evs) + d'),
           foldl (\<lambda>lg (d, event). snd (handler_response c handler event lg)) ?log1 evs)"
      using Cons.prems(2) by (intro Cons.IH) simp_all
    with step False w show ?thesis
      by (simp add: x acks_due_Cons_event)
  qed
qed

text \<open>
  C1, amended. Each event read makes the processing loop take one step: when the
  envelope id is empty after \<open>strings.TrimSpace\<close> it goes on to the next read with
  no write; otherwise it passes exactly one acknowledgement to \<open>WriteJSON\<close>, and
  goes on to the next read, or returns the error of that write. Over a whole run
  on a connection whose writes succeed and whose reads are events followed by a
  failing read, the loop returns that read error, having written, in order, the
  acknowledgements of exactly those events whose envelope id is not empty after
  trimming. An acknowledgement carries the envelope id, and has a \<open>payload\<close> field
  if and only if the handler was invoked, returned no error and a non-nil
  response, and the envelope's \<open>accepts_response_payload\<close> was true.
\<close>

theorem processConnection_acknowledges:
  "(ReadJSON conn = Some (d, Inr event, conn1) \<longrightarrow>
      processConnection c handler conn t log =
        (if TrimSpace (EnvelopeID event) = [] then
           processConnection c handler conn1 (t + int d)
             (snd (handler_response c handler event log))
         else
           (case WriteJSON_result conn1 (length (writes conn1))
                   (build_ack event (fst (handler_response c handler event log))) of
              None \<Rightarrow>
                processConnection c handler
                  (conn1\<lparr>writes := writes conn1 @
                            [build_ack event (fst (handler_response c handler event log))]\<rparr>)
                  (t + int d) (snd (handler_response c handler event log))
            | Some werr \<Rightarrow>
                Some (werr,
                      conn1\<lparr>writes := writes conn1 @
                            [build_ack event (fst (handler_response c handler event log))]\<rparr>,
                      t + int d, snd (handler_response c handler event log))))) \<and>
   (inbox conn0 = map (\<lambda>(d, event). (d, Inr event)) evs @ (d', Inl err) # later \<and>
    (\<forall>k v. WriteJSON_result conn0 k v = None) \<longrightarrow>
      processConnection c handler conn0 t log =
        Some (err,
              conn0\<lparr>inbox := later,
                    writes := writes conn0 @
                      acks_due c handler (map (\<lambda>(d, event). (d, Inr event)) evs)\<rparr>,
              t + int (sum_list (map fst evs) + d'),
              foldl (\<lambda>lg (d, event). snd (handler_response c handler event lg)) log evs)) \<and>
   acks_due c handler [(d, Inr event)] =
     (if TrimSpace (EnvelopeID event) = [] then []
      else [build_ack event (fst (handler_response c handler event log))]) \<and>
   build_ack event (fst (handler_response c handler event log)) ''envelope_id'' =
     Some (StringValue (EnvelopeID event)) \<and>
   (''payload'' \<in> dom (build_ack event (fst (handler_response c handler event log)))) =
     (\<exists>h p. handler = Some h \<and> h event = (Some p, None) \<and> AcceptsResponsePayload event)"
proof (intro conjI impI)
  assume rj: "ReadJSON conn = Some (d, Inr event, conn1)"
  from processConnection_step [OF rj, of c handler t log]
  show "processConnection c handler conn t log =
        (if TrimSpace (EnvelopeID event) = [] then
           processConnection c handler conn1 (t + int d)
             (snd (handler_response c handler event log))
         else
           (case WriteJSON_result conn1 (length (writes conn1))
                   (build_ack event (fst (handler_response c handler event log))) of
              None \<Rightarrow>
                processConnection c handler
                  (conn1\<lparr>writes := writes conn1 @
                            [build_ack event (fst (handler_response c handler event log))]\<rparr>)
                  (t + int d) (snd (handler_response c handler event log))
            | Some werr \<Rightarrow>
                Some (werr,
                      conn1\<lparr>writes := writes conn1 @
                            [build_ack event (fst (handler_response c handler event log))]\<rparr>,
                      t + int d, snd (handler_response c handler event log))))"
    by (simp add: WriteJSON_def split: option.splits)
next
  assume "inbox conn0 = map (\<lambda>(d, event). (d, Inr event)) evs @ (d', Inl err) # later \<and>
    (\<forall>k v. WriteJSON_result conn0 k v = None)"
  then show "processConnection c handler conn0 t log =
        Some (err,
              conn0\<lparr>inbox := later,
                    writes := writes conn0 @
                      acks_due c handler (map (\<lambda>(d, event). (d, Inr event)) evs)\<rparr>,
              t + int (sum_list (map fst evs) + d'),
              foldl (\<lambda>lg (d, event). snd (handler_response c handler event lg)) log evs)"
    by (intro processConnection_total) blast+
next
  show "acks_due c handler [(d, Inr event)] =
     (if TrimSpace (EnvelopeID event) = [] then []
      else [build_ack event (fst (handler_response c handler event log))])"
    by (simp add: acks_due_def handler_response_fst [of c handler event log])
next
  show "build_ack event (fst (handler_response c handler event log)) ''envelope_id'' =
     Some (StringValue (EnvelopeID event))"
    by (simp add: build_ack_def Let_def split: option.splits)
next
  show "(''payload'' \<in> dom (build_ack event (fst (handler_response c handler event log)))) =
     (\<exists>h p. handler = Some h \<and> h event = (Some p, None) \<and> AcceptsResponsePayload event)"
  proof (cases handler)
    case None
    then show ?thesis by (simp add: build_ack_def handler_response_def Let_def)
  next
    case (Some h)
    obtain resp herr where h: "h event = (resp, herr)" by (cases "h event")
    show ?thesis
      by (cases resp; cases herr) (simp_all add: build_ack_def handler_response_def Some h Let_def)
  qed
qed

theorem processConnection_acknowledges_witness:
  "ReadJSON (scripted_conn [(5, Inr (event_with_id [0x65, 0x2D, 0x31] True)), (2, Inl EOF)]) =
     Some (5, Inr (event_with_id [0x65, 0x2D, 0x31] True), scripted_conn [(2, Inl EOF)]) \<and>
   processConnection (client_with_delay 0) (Some (\<lambda>event. (Some ''ok'', None)))
       (scripted_conn [(5, Inr (event_with_id [0x65, 0x2D, 0x31] True)), (2, Inl EOF)]) 0 [] =
     processConnection (client_with_delay 0) (Some (\<lambda>event. (Some ''ok'', None)))
       ((scripted_conn [(2, Inl EOF)])\<lparr>writes :=
          [''envelope_id'' \<mapsto> StringValue [0x65, 0x2D, 0x31], ''payload'' \<mapsto> AnyValue ''ok''] # []\<rparr>)
       5 [] \<and>
   inbox (scripted_conn
          [(5, Inr (event_with_id [0x65, 0x2D, 0x31] True)), (0, Inr (event_with_id [0x20] True)),
           (0, Inr (event_with_id [] True)), (7, Inr (event_with_id [0x65, 0x2D, 0x32] False)),
           (2, Inl EOF)]) =
     map (\<lambda>(d, event). (d, Inr event))
       [(5, event_with_id [0x65, 0x2D, 0x31] True), (0, event_with_id [0x20] True),
        (0, event_with_id [] True), (7, event_with_id [0x65, 0x2D, 0x32] False)] @
     (2, Inl EOF) # [] \<and>
   processConnection (client_with_delay 0) (Some (\<lambda>event. (Some ''ok'', None)))
       (scripted_conn
          [(5, Inr (event_with_id [0x65, 0x2D, 0x31] True)), (0, Inr (event_with_id [0x20] True)),
           (0, Inr (event_with_id [] True)), (7, Inr (event_with_id [0x65, 0x2D, 0x32] False)),
           (2, Inl EOF)]) 0 [] =
     Some (EOF,
           (scripted_conn [])\<lparr>writes :=
              [[''envelope_id'' \<mapsto> StringValue [0x65, 0x2D, 0x31], ''payload'' \<mapsto> AnyValue ''ok''],
               [''envelope_id'' \<mapsto> StringValue [0x65, 0x2D, 0x32]]]\<rparr>,
           14, [])"
proof -
  let ?c = "client_with_delay 0"
  let ?h = "Some (\<lambda>event :: SocketModeEvent. (Some ''ok'', None :: go_error option))"
  let ?e1 = "event_with_id [0x65, 0x2D, 0x31] True"
  let ?evs = "[(5, event_with_id [0x65, 0x2D, 0x31] True), (0, event_with_id [0x20] True),
        (0, event_with_id [] True), (7, event_with_id [0x65, 0x2D, 0x32] False)]"
  let ?script = "[(5, Inr (event_with_id [0x65, 0x2D, 0x31] True)), (0, Inr (event_with_id [0x20] True)),
           (0, Inr (event_with_id [] True)), (7, Inr (event_with_id [0x65, 0x2D, 0x32] False)),
           (2, Inl EOF)]"
  have rj: "ReadJSON (scripted_conn [(5, Inr ?e1), (2, Inl EOF)]) =
     Some (5, Inr ?e1, scripted_conn [(2, Inl EOF)])"
    by (simp add: ReadJSON_def scripted_conn_def)
  have ib: "inbox (scripted_conn ?script) =
     map (\<lambda>(d, event). (d, Inr event)) ?evs @ (2, Inl EOF) # []"
    by (simp add: scripted_conn_def)
  have wr: "\<forall>k v. WriteJSON_result (scripted_conn ?script) k v = None"
    by (simp add: scripted_conn_def)
  note t = processConnection_acknowledges
    [where conn = "scripted_conn [(5, Inr ?e1), (2, Inl EOF)]" and d = 5 and event = ?e1
       and ?conn1.0 = "scripted_conn [(2, Inl EOF)]" and c = ?c and handler = ?h and t = 0
       and log = "[]" and ?conn0.0 = "scripted_conn ?script" and evs = ?evs and d' = 2
       and err = EOF and later = "[]"]
  from t rj have step: "processConnection ?c ?h (scripted_conn [(5, Inr ?e1), (2, Inl EOF)]) 0 [] =
        (if TrimSpace (EnvelopeID ?e1) = [] then
           processConnection ?c ?h (scripted_conn [(2, Inl EOF)]) (0 + int 5)
             (snd (handler_response ?c ?h ?e1 []))
         else
           (case WriteJSON_result (scripted_conn [(2, Inl EOF)])
                   (length (writes (scripted_conn [(2, Inl EOF)])))
                   (build_ack ?e1 (fst (handler_response ?c ?h ?e1 []))) of
              None \<Rightarrow>
                processConnection ?c ?h
                  ((scripted_conn [(2, Inl EOF)])\<lparr>writes := writes (scripted_conn [(2, Inl EOF)]) @
                            [build_ack ?e1 (fst (handler_response ?c ?h ?e1 []))]\<rparr>)
                  (0 + int 5) (snd (handler_response ?c ?h ?e1 []))
            | Some werr \<Rightarrow>
                Some (werr,
                      (scripted_conn [(2, Inl EOF)])\<lparr>writes := writes (scripted_conn [(2, Inl EOF)]) @
                            [build_ack ?e1 (fst (handler_response ?c ?h ?e1 []))]\<rparr>,
                      0 + int 5, snd (handler_response ?c ?h ?e1 []))))"
    by blast
  have wr1: "WriteJSON_result (scripted_conn xs) k v = None" for xs k v
    by (simp add: scripted_conn_def)
  have ws: "writes (scripted_conn xs) = []" for xs
    by (simp add: scripted_conn_def)
  have ts: "TrimSpace (EnvelopeID ?e1) \<noteq> []"
    by (simp add: event_with_id_def TrimSpace_def IsSpace_def)
  have hr: "handler_response ?c ?h ev lg = (Some ''ok'', lg)" for ev lg
    by (simp add: handler_response_def)
  have ba: "build_ack ?e1 (Some ''ok'') =
      [''envelope_id'' \<mapsto> StringValue [0x65, 0x2D, 0x31], ''payload'' \<mapsto> AnyValue ''ok'']"
    by (simp add: build_ack_def event_with_id_def)
  from step have one: "processConnection ?c ?h (scripted_conn [(5, Inr ?e1), (2, Inl EOF)]) 0 [] =
     processConnection ?c ?h
       ((scripted_conn [(2, Inl EOF)])\<lparr>writes :=
          [''envelope_id'' \<mapsto> StringValue [0x65, 0x2D, 0x31], ''payload'' \<mapsto> AnyValue ''ok''] # []\<rparr>)
       5 []"
    by (simp add: ts wr1 ws hr ba)
  note full = t [THEN conjunct2, THEN conjunct1, THEN mp, OF conjI [OF ib wr]]
  from full have run: "processConnection ?c ?h (scripted_conn ?script) 0 [] =
     Some (EOF,
           (scripted_conn [])\<lparr>writes :=
              [[''envelope_id'' \<mapsto> StringValue [0x65, 0x2D, 0x31], ''payload'' \<mapsto> AnyValue ''ok''],
               [''envelope_id'' \<mapsto> StringValue [0x65, 0x2D, 0x32]]]\<rparr>,
           14, [])"
    by (simp add: hr acks_due_def build_ack_def event_with_id_def TrimSpace_def IsSpace_def
          scripted_conn_def)
  from rj one ib run show ?thesis by blast
qed

lemma ReadJSON_writes:
  "ReadJSON conn = Some (d, res, conn1) \<Longrightarrow>
   writes conn1 = writes conn \<and> WriteJSON_result conn1 = WriteJSON_result conn \<and>
   inbox conn = (d, res) # inbox conn1"
  by (auto simp add: ReadJSON_def split: list.splits)

text \<open>
  C10. An event whose envelope id is not empty but consists only of white space is
  treated as one whose envelope id is empty: the handler has been called, nothing
  is written, and the loop goes on with the next read.
\<close>

theorem processConnection_blank_envelope_id:
  "(EnvelopeID event \<noteq> [] \<and> (\<forall>r \<in> set (EnvelopeID event). IsSpace r) \<and>
    ReadJSON conn = Some (d, Inr event, conn1) \<longrightarrow>
      processConnection c handler conn t log =
        processConnection c handler conn1 (t + int d)
          (snd (handler_response c handler event log)) \<and>
      writes conn1 = writes conn) \<and>
   (EnvelopeID event0 = [] \<and> ReadJSON conn0 = Some (d0, Inr event0, conn2) \<longrightarrow>
      processConnection c handler conn0 t log =
        processConnection c handler conn2 (t + int d0)
          (snd (handler_response c handler event0 log)) \<and>
      writes conn2 = writes conn0)"
proof (intro conjI impI)
  assume a: "EnvelopeID event \<noteq> [] \<and> (\<forall>r \<in> set (EnvelopeID event). IsSpace r) \<and>
    ReadJSON conn = Some (d, Inr event, conn1)"
  then have rj: "ReadJSON conn = Some (d, Inr event, conn1)"
    and ts: "TrimSpace (EnvelopeID event) = []"
    by (simp_all add: TrimSpace_empty_iff)
  from processConnection_step [OF rj, of c handler t log] ts
  show "processConnection c handler conn t log =
        processConnection c handler conn1 (t + int d)
          (snd (handler_response c handler event log))" by simp
  from ReadJSON_writes [OF rj] show "writes conn1 = writes conn" by blast
next
  assume a: "EnvelopeID event0 = [] \<and> ReadJSON conn0 = Some (d0, Inr event0, conn2)"
  then have rj: "ReadJSON conn0 = Some (d0, Inr event0, conn2)"
    and ts: "TrimSpace (EnvelopeID event0) = []"
    by (simp_all add: TrimSpace_empty_iff)
  from processConnection_step [OF rj, of c handler t log] ts
  show "processConnection c handler conn0 t log =
        processConnection c handler conn2 (t + int d0)
          (snd (handler_response c handler event0 log))" by simp
  from ReadJSON_writes [OF rj] show "writes conn2 = writes conn0" by blast
qed

theorem processConnection_blank_envelope_id_witness:
  "EnvelopeID (event_with_id [0x20, 0x09, 0xA0, 0x3000] True) \<noteq> [] \<and>
   EnvelopeID (event_with_id [0x20, 0x09, 0xA0, 0x3000] True) = [0x20, 0x09, 0xA0, 0x3000] \<and>
   IsSpace 0x20 \<and> IsSpace 0x09 \<and> IsSpace 0xA0 \<and> IsSpace 0x3000 \<and>
   ReadJSON (scripted_conn [(3, Inr (event_with_id [0x20, 0x09, 0xA0, 0x3000] True)), (2, Inl EOF)]) =
     Some (3, Inr (event_with_id [0x20, 0x09, 0xA0, 0x3000] True), scripted_conn [(2, Inl EOF)]) \<and>
   processConnection (client_with_delay 0) (Some (\<lambda>event. (Some ''ok'', None)))
       (scripted_conn [(3, Inr (event_with_id [0x20, 0x09, 0xA0, 0x3000] True)), (2, Inl EOF)]) 0 [] =
     Some (EOF, scripted_conn [], 5, []) \<and>
   EnvelopeID (event_with_id [] True) = [] \<and>
   ReadJSON (scripted_conn [(3, Inr (event_with_id [] True)), (2, Inl EOF)]) =
     Some (3, Inr (event_with_id [] True), scripted_conn [(2, Inl EOF)]) \<and>
   processConnection (client_with_delay 0) (Some (\<lambda>event. (Some ''ok'', None)))
       (scripted_conn [(3, Inr (event_with_id [] True)), (2, Inl EOF)]) 0 [] =
     Some (EOF, scripted_conn [], 5, [])"
proof -
  let ?h = "Some (\<lambda>event :: SocketModeEvent. (Some ''ok'', None :: go_error option))"
  have ne: "EnvelopeID (event_with_id [0x20, 0x09, 0xA0, 0x3000] True) \<noteq> []"
    by (simp add: event_with_id_def)
  have sp: "\<forall>r \<in> set (EnvelopeID (event_with_id [0x20, 0x09, 0xA0, 0x3000] True)). IsSpace r"
    by (simp add: event_with_id_def IsSpace_def)
  have rj: "ReadJSON (scripted_conn [(3, Inr ev), (2, Inl EOF)]) =
     Some (3, Inr ev, scripted_conn [(2, Inl EOF)])" for ev
    by (simp add: ReadJSON_def scripted_conn_def)
  have tail: "processConnection (client_with_delay 0) ?h (scripted_conn [(2, Inl EOF)]) 3 lg =
     Some (EOF, scripted_conn [], 5, lg)" for lg
    by (simp add: processConnection.simps ReadJSON_def scripted_conn_def)
  have hr: "snd (handler_response (client_with_delay 0) ?h ev []) = []" for ev
    by (simp add: handler_response_def)
  have e0: "EnvelopeID (event_with_id [] True) = []" by (simp add: event_with_id_def)
  note t = processConnection_blank_envelope_id
    [where event = "event_with_id [0x20, 0x09, 0xA0, 0x3000] True"
       and conn = "scripted_conn [(3, Inr (event_with_id [0x20, 0x09, 0xA0, 0x3000] True)), (2, Inl EOF)]"
       and d = 3 and ?conn1.0 = "scripted_conn [(2, Inl EOF)]"
       and c = "client_with_delay 0" and handler = ?h and t = 0 and log = "[]"
       and ?event0.0 = "event_with_id [] True"
       and ?conn0.0 = "scripted_conn [(3, Inr (event_with_id [] True)), (2, Inl EOF)]"
       and ?d0.0 = 3 and ?conn2.0 = "scripted_conn [(2, Inl EOF)]"]
  from t ne sp rj have "processConnection (client_with_delay 0) ?h
       (scripted_conn [(3, Inr (event_with_id [0x20, 0x09, 0xA0, 0x3000] True)), (2, Inl EOF)]) 0 [] =
     processConnection (client_with_delay 0) ?h (scripted_conn [(2, Inl EOF)]) (0 + int 3)
       (snd (handler_response (client_with_delay 0) ?h
              (event_with_id [0x20, 0x09, 0xA0, 0x3000] True) []))"
    by blast
  then have a: "processConnection (client_with_delay 0) ?h
       (scripted_conn [(3, Inr (event_with_id [0x20, 0x09, 0xA0, 0x3000] True)), (2, Inl EOF)]) 0 [] =
     Some (EOF, scripted_conn [], 5, [])"
    by (simp add: hr tail)
  from t e0 rj have "processConnection (client_with_delay 0) ?h
       (scripted_conn [(3, Inr (event_with_id [] True)), (2, Inl EOF)]) 0 [] =
     processConnection (client_with_delay 0) ?h (scripted_conn [(2, Inl EOF)]) (0 + int 3)
       (snd (handler_response (client_with_delay 0) ?h (event_with_id [] True) []))"
    by blast
  then have b: "processConnection (client_with_delay 0) ?h
       (scripted_conn [(3, Inr (event_with_id [] True)), (2, Inl EOF)]) 0 [] =
     Some (EOF, scripted_conn [], 5, [])"
    by (simp add: hr tail)
  have sp': "EnvelopeID (event_with_id [0x20, 0x09, 0xA0, 0x3000] True) = [0x20, 0x09, 0xA0, 0x3000]"
    "IsSpace 0x20" "IsSpace 0x09" "IsSpace 0xA0" "IsSpace 0x3000"
    by (simp_all add: event_with_id_def IsSpace_def)
  from ne sp' rj a e0 b show ?thesis by blast
qed

text \<open>
  C7, as stated, fails for an envelope id that is not empty but consists of white
  space (here a tab): the handler's error is logged and no acknowledgement is
  written.
\<close>

theorem processConnection_handler_error_blank_id_counterexample:
  "EnvelopeID (event_with_id [0x09] True) \<noteq> [] \<and>
   processConnection (client_with_delay 0)
       (Some (\<lambda>event. (None :: string option, Some (ErrorsNew ''handler failed''))))
       (scripted_conn [(0, Inr (event_with_id [0x09] True)), (0, Inl EOF)]) 0 [] =
     Some (EOF, scripted_conn [], 0, [HandlerError (ErrorsNew ''handler failed'')]) \<and>
   writes (scripted_conn []) = []"
  by (simp add: processConnection.simps ReadJSON_def scripted_conn_def event_with_id_def
        handler_response_def TrimSpace_def IsSpace_def Printf_def client_with_delay_def)

text \<open>
  C7, amended. If the handler returns an error for an event whose envelope id is
  not empty after \<open>strings.TrimSpace\<close>, the error is only logged (when a logger is
  set): exactly one acknowledgement, with the envelope id and no payload field, is
  passed to \<open>WriteJSON\<close>, whatever response the handler returned with the error,
  and the loop goes on with the next read; it ends there only if that write
  itself fails, with the error of the write.
\<close>

theorem processConnection_handler_error_still_acks:
  assumes "ReadJSON conn = Some (d, Inr event, conn1)"
    and "handler = Some h"
    and "h event = (resp, Some herr)"
    and "TrimSpace (EnvelopeID event) \<noteq> []"
  shows "processConnection c handler conn t log =
      (case WriteJSON_result conn1 (length (writes conn1))
              [''envelope_id'' \<mapsto> StringValue (EnvelopeID event)] of
         None \<Rightarrow>
           processConnection c handler
             (conn1\<lparr>writes := writes conn @ [[''envelope_id'' \<mapsto> StringValue (EnvelopeID event)]]\<rparr>)
             (t + int d) (Printf c (HandlerError herr) log)
       | Some werr \<Rightarrow>
           Some (werr,
             conn1\<lparr>writes := writes conn @ [[''envelope_id'' \<mapsto> StringValue (EnvelopeID event)]]\<rparr>,
             t + int d, Printf c (HandlerError herr) log))"
proof -
  have hr: "handler_response c handler event log = (None, Printf c (HandlerError herr) log)"
    using assms(2,3) by (simp add: handler_response_def)
  have ack: "build_ack event None = [''envelope_id'' \<mapsto> StringValue (EnvelopeID event)]"
    by (simp add: build_ack_def)
  from ReadJSON_writes [OF assms(1)] have w: "writes conn1 = writes conn" by blast
  from processConnection_step [OF assms(1), of c handler t log] assms(4)
  show ?thesis
    by (simp add: hr ack WriteJSON_def w split: option.splits)
qed

theorem processConnection_handler_error_still_acks_witness:
  "ReadJSON (scripted_conn [(3, Inr (event_with_id [0x65, 0x2D, 0x32] True)), (2, Inl EOF)]) =
     Some (3, Inr (event_with_id [0x65, 0x2D, 0x32] True), scripted_conn [(2, Inl EOF)]) \<and>
   TrimSpace (EnvelopeID (event_with_id [0x65, 0x2D, 0x32] True)) \<noteq> [] \<and>
   processConnection (client_with_delay 0)
       (Some (\<lambda>event. (Some ''ignored'', Some (ErrorsNew ''handler failed''))))
       (scripted_conn [(3, Inr (event_with_id [0x65, 0x2D, 0x32] True)), (2, Inl EOF)]) 0 [] =
     Some (EOF,
           (scripted_conn [])\<lparr>writes := [[''envelope_id'' \<mapsto> StringValue [0x65, 0x2D, 0x32]]]\<rparr>,
           5, [HandlerError (ErrorsNew ''handler failed'')])"
proof -
  let ?h = "\<lambda>event :: SocketModeEvent. (Some ''ignored'', Some (ErrorsNew ''handler failed''))"
  let ?ev = "event_with_id [0x65, 0x2D, 0x32] True"
  have rj: "ReadJSON (scripted_conn [(3, Inr ?ev), (2, Inl EOF)]) =
     Some (3, Inr ?ev, scripted_conn [(2, Inl EOF)])"
    by (simp add: ReadJSON_def scripted_conn_def)
  have ts: "TrimSpace (EnvelopeID ?ev) \<noteq> []"
    by (simp add: event_with_id_def TrimSpace_def IsSpace_def)
  have tail: "processConnection (client_with_delay 0) (Some ?h)
       ((scripted_conn [(2, Inl EOF)])\<lparr>writes := ws\<rparr>) 3 lg =
     Some (EOF, (scripted_conn [])\<lparr>writes := ws\<rparr>, 5, lg)" for ws lg
    by (simp add: processConnection.simps ReadJSON_def scripted_conn_def)
  have wr: "WriteJSON_result (scripted_conn xs) k v = None" for xs k v
    by (simp add: scripted_conn_def)
  have ws: "writes (scripted_conn xs) = []" for xs
    by (simp add: scripted_conn_def)
  have eid: "EnvelopeID (event_with_id i a) = i" for i a
    by (simp add: event_with_id_def)
  have pf: "Printf (client_with_delay 0) l lg = lg @ [l]" for l lg
    by (simp add: Printf_def client_with_delay_def)
  have he: "?h ?ev = (Some ''ignored'', Some (ErrorsNew ''handler failed''))" by simp
  from processConnection_handler_error_still_acks
    [where h = ?h and resp = "Some ''ignored''" and herr = "ErrorsNew ''handler failed''",
     OF rj refl he ts, where c = "client_with_delay 0" and t = 0 and log = "[]"]
  have "processConnection (client_with_delay 0) (Some ?h)
       (scripted_conn [(3, Inr ?ev), (2, Inl EOF)]) 0 [] =
     Some (EOF,
           (scripted_conn [])\<lparr>writes := [[''envelope_id'' \<mapsto> StringValue [0x65, 0x2D, 0x32]]]\<rparr>,
           5, [HandlerError (ErrorsNew ''handler failed'')])"
    by (simp add: wr ws eid pf tail)
  with rj ts show ?thesis by blast
qed

section \<open>The run loop: read failures, reconnecting, cancellation\<close>


lemma run_state_update_order:
  "st\<lparr>used := u, logged := l, clock := k\<rparr> = st\<lparr>clock := k, logged := l, used := u\<rparr>"
  by (cases st) simp



lemma ctx_done_at_cause:
  "ctx_done_at ctx = Some (td, cerr) \<Longrightarrow> cerr = Canceled \<or> cerr = DeadlineExceeded"
  by (auto simp add: ctx_done_at_def split: option.splits if_splits)

lemma RunWithHandler_loop_ctx_done:
  "ctx_Err ctx (clock st) = Some e \<Longrightarrow> RunWithHandler_loop c ctx handler script st = Some (e, st)"
  by (cases script) (simp_all add: RunWithHandler_loop.simps)

lemma waitReconnect_done:
  assumes "ctx_done_at ctx = Some (td, cerr)" and "td \<le> t \<or> td < t + reconnectDelay c"
  shows "waitReconnect c ctx t timer_wins = (Some cerr, max t td)"
  using assms by (auto simp add: waitReconnect_def ctx_Err_def)

lemma waitReconnect_cases:
  assumes "ctx_done_at ctx = Some (td, cerr)" and "td \<le> t + max 0 (reconnectDelay c)"
  shows "waitReconnect c ctx t timer_wins = (Some cerr, max t td) \<or>
         waitReconnect c ctx t timer_wins = (None, t + reconnectDelay c) \<and>
           td \<le> t + reconnectDelay c"
  using assms by (auto simp add: waitReconnect_def ctx_Err_def)

lemma RunWithHandler_loop_connection_ended:
  assumes "ctx_Err ctx (clock st) = None"
    and "snd (openConnection_result a) = Inr socketURL"
    and "snd (Dial_result a) = Inr conn"
    and "processConnection c handler conn
           (clock st + int (fst (openConnection_result a)) + int (fst (Dial_result a)))
           (logged st) = Some (err, conn1, t3, log3)"
    and "\<not> errors_Is err Canceled" and "\<not> errors_Is err DeadlineExceeded"
    and "ctx_Err ctx t3 = None"
  shows "RunWithHandler_loop c ctx handler (a # rest) st =
      (case waitReconnect c ctx t3 (timer_wins_tie a) of
         (Some waitErr, t5) \<Rightarrow>
           Some (waitErr, st\<lparr>clock := t5, logged := Printf c (ConnectionEnded err) log3,
                            used := used st @ [conn1\<lparr>closed := True\<rparr>]\<rparr>)
       | (None, t5) \<Rightarrow>
           RunWithHandler_loop c ctx handler rest
             (st\<lparr>clock := t5, logged := Printf c (ConnectionEnded err) log3,
                 used := used st @ [conn1\<lparr>closed := True\<rparr>]\<rparr>))"
  using assms
  by (auto simp add: RunWithHandler_loop.simps Let_def run_state_update_order
      split: option.splits prod.splits)

lemma RunWithHandler_loop_connection_ended_done:
  assumes "ctx_Err ctx (clock st) = None"
    and "snd (openConnection_result a) = Inr socketURL"
    and "snd (Dial_result a) = Inr conn"
    and "processConnection c handler conn
           (clock st + int (fst (openConnection_result a)) + int (fst (Dial_result a)))
           (logged st) = Some (err, conn1, t3, log3)"
    and "\<not> errors_Is err Canceled" and "\<not> errors_Is err DeadlineExceeded"
    and "ctx_Err ctx t3 = Some cerr"
  shows "RunWithHandler_loop c ctx handler (a # rest) st =
           Some (cerr, st\<lparr>clock := t3, logged := log3,
                          used := used st @ [conn1\<lparr>closed := True\<rparr>]\<rparr>)"
  using assms
  by (auto simp add: RunWithHandler_loop.simps Let_def run_state_update_order
      split: option.splits prod.splits)

text \<open>
  C9. \<open>waitReconnect\<close>, entered at instant \<open>t\<close> under a context that is done at
  \<open>td\<close>, either already (\<open>td \<le> t\<close>, for any delay, zero included) or before the
  timer fires (\<open>td < t + reconnectDelay\<close>), returns the context's error, at \<open>td\<close> or
  at once when the context was done already. After a failed dial, and likewise
  after a connection has ended, a context done no later than the end of the wait
  makes the run loop return the context's error, whatever passes the script still
  holds.
\<close>

theorem waitReconnect_returns_cancellation:
  "(ctx_done_at ctx = Some (td, cerr) \<and> (td \<le> t \<or> td < t + reconnectDelay c) \<longrightarrow>
      waitReconnect c ctx t timer_wins = (Some cerr, max t td) \<and>
      (cerr = Canceled \<or> cerr = DeadlineExceeded)) \<and>
   (ctx_Err ctx (clock st) = None \<and>
    snd (openConnection_result a) = Inr socketURL \<and>
    snd (Dial_result a) = Inl dialErr \<and>
    ctx_done_at ctx = Some (td, cerr) \<and>
    td \<le> clock st + int (fst (openConnection_result a)) + int (fst (Dial_result a)) +
           max 0 (reconnectDelay c) \<longrightarrow>
      map_option fst (RunWithHandler_loop c ctx handler (a # rest) st) = Some cerr) \<and>
   (ctx_Err ctx (clock st) = None \<and>
    snd (openConnection_result a) = Inr socketURL \<and>
    snd (Dial_result a) = Inr conn \<and>
    processConnection c handler conn
      (clock st + int (fst (openConnection_result a)) + int (fst (Dial_result a)))
      (logged st) = Some (err, conn1, t3, log3) \<and>
    \<not> errors_Is err Canceled \<and> \<not> errors_Is err DeadlineExceeded \<and>
    ctx_done_at ctx = Some (td, cerr) \<and>
    td \<le> t3 + max 0 (reconnectDelay c) \<longrightarrow>
      map_option fst (RunWithHandler_loop c ctx handler (a # rest) st) = Some cerr)"
proof (intro conjI impI)
  assume a: "ctx_done_at ctx = Some (td, cerr) \<and> (td \<le> t \<or> td < t + reconnectDelay c)"
  then show "waitReconnect c ctx t timer_wins = (Some cerr, max t td)"
    by (intro waitReconnect_done) blast+
  from a show "cerr = Canceled \<or> cerr = DeadlineExceeded"
    using ctx_done_at_cause by blast
next
  let ?t2 = "clock st + int (fst (openConnection_result a)) + int (fst (Dial_result a))"
  let ?st3 = "st\<lparr>clock := ?t2, logged := Printf c (DialFailed dialErr) (logged st)\<rparr>"
  assume a: "ctx_Err ctx (clock st) = None \<and>
    snd (openConnection_result a) = Inr socketURL \<and>
    snd (Dial_result a) = Inl dialErr \<and>
    ctx_done_at ctx = Some (td, cerr) \<and>
    td \<le> ?t2 + max 0 (reconnectDelay c)"
  then have unfold: "RunWithHandler_loop c ctx handler (a # rest) st =
      (case waitReconnect c ctx ?t2 (timer_wins_tie a) of
         (Some waitErr, t4) \<Rightarrow> Some (waitErr, ?st3\<lparr>clock := t4\<rparr>)
       | (None, t4) \<Rightarrow> RunWithHandler_loop c ctx handler rest (?st3\<lparr>clock := t4\<rparr>))"
    by (auto simp add: RunWithHandler_loop.simps Let_def split: prod.splits option.splits)
  from a have d: "ctx_done_at ctx = Some (td, cerr)"
    and le: "td \<le> ?t2 + max 0 (reconnectDelay c)" by blast+
  from waitReconnect_cases [OF d le, of "timer_wins_tie a"]
  show "map_option fst (RunWithHandler_loop c ctx handler (a # rest) st) = Some cerr"
  proof
    assume "waitReconnect c ctx ?t2 (timer_wins_tie a) = (Some cerr, max ?t2 td)"
    with unfold show ?thesis by simp
  next
    assume w: "waitReconnect c ctx ?t2 (timer_wins_tie a) = (None, ?t2 + reconnectDelay c) \<and>
           td \<le> ?t2 + reconnectDelay c"
    then have "ctx_Err ctx (clock (?st3\<lparr>clock := ?t2 + reconnectDelay c\<rparr>)) = Some cerr"
      using d by (simp add: ctx_Err_def)
    from RunWithHandler_loop_ctx_done [OF this, of c handler rest] unfold w
    show ?thesis by simp
  qed
next
  let ?st4 = "st\<lparr>clock := t3, logged := Printf c (ConnectionEnded err) log3,
                 used := used st @ [conn1\<lparr>closed := True\<rparr>]\<rparr>"
  assume a: "ctx_Err ctx (clock st) = None \<and>
    snd (openConnection_result a) = Inr socketURL \<and>
    snd (Dial_result a) = Inr conn \<and>
    processConnection c handler conn
      (clock st + int (fst (openConnection_result a)) + int (fst (Dial_result a)))
      (logged st) = Some (err, conn1, t3, log3) \<and>
    \<not> errors_Is err Canceled \<and> \<not> errors_Is err DeadlineExceeded \<and>
    ctx_done_at ctx = Some (td, cerr) \<and>
    td \<le> t3 + max 0 (reconnectDelay c)"
  then have h: "ctx_Err ctx (clock st) = None" "snd (openConnection_result a) = Inr socketURL"
    "snd (Dial_result a) = Inr conn"
    "processConnection c handler conn
      (clock st + int (fst (openConnection_result a)) + int (fst (Dial_result a)))
      (logged st) = Some (err, conn1, t3, log3)"
    "\<not> errors_Is err Canceled" "\<not> errors_Is err DeadlineExceeded"
    and d: "ctx_done_at ctx = Some (td, cerr)"
    and le: "td \<le> t3 + max 0 (reconnectDelay c)" by blast+
  show "map_option fst (RunWithHandler_loop c ctx handler (a # rest) st) = Some cerr"
  proof (cases "td \<le> t3")
    case True
    with d have "ctx_Err ctx t3 = Some cerr" by (simp add: ctx_Err_def)
    from RunWithHandler_loop_connection_ended_done [OF h this] show ?thesis by simp
  next
    case False
    with d have n: "ctx_Err ctx t3 = None" by (simp add: ctx_Err_def)
    note unfold = RunWithHandler_loop_connection_ended [OF h n, of rest]
    from waitReconnect_cases [OF d le, of "timer_wins_tie a"]
    show ?thesis
    proof
      assume "waitReconnect c ctx t3 (timer_wins_tie a) = (Some cerr, max t3 td)"
      with unfold show ?thesis by simp
    next
      assume w: "waitReconnect c ctx t3 (timer_wins_tie a) = (None, t3 + reconnectDelay c) \<and>
           td \<le> t3 + reconnectDelay c"
      let ?st5 = "st\<lparr>clock := t3 + reconnectDelay c,
                       logged := Printf c (ConnectionEnded err) log3,
                       used := used st @ [conn1\<lparr>closed := True\<rparr>]\<rparr>"
      from unfold w have e1: "RunWithHandler_loop c ctx handler (a # rest) st =
          RunWithHandler_loop c ctx handler rest ?st5" by simp
      have e2: "RunWithHandler_loop c ctx handler rest ?st5 = Some (cerr, ?st5)"
        using d w by (intro RunWithHandler_loop_ctx_done) (simp add: ctx_Err_def)
      show ?thesis unfolding e1 e2 by simp
    qed
  qed
qed

theorem waitReconnect_returns_cancellation_witness:
  "ctx_done_at (cancelled_ctx 7) = Some (7, Canceled) \<and>
   waitReconnect (client_with_delay 10) (cancelled_ctx 7) 5 True = (Some Canceled, 7) \<and>
   waitReconnect (client_with_delay 0) (cancelled_ctx 7) 8 True = (Some Canceled, 8) \<and>
   ctx_Err (cancelled_ctx 7) 0 = None \<and>
   RunWithHandler (client_with_delay 10) (Some (cancelled_ctx 7)) None
       [attempt_dialing (Inl (ErrorsNew ''temporary dial failure''))] 0 =
     Some (Canceled,
           \<lparr>clock = 7, logged = [DialFailed (ErrorsNew ''temporary dial failure'')], used = []\<rparr>) \<and>
   ctx_done_at (cancelled_ctx 12) = Some (12, Canceled) \<and>
   ctx_Err (cancelled_ctx 12) 0 = None \<and>
   processConnection (client_with_delay 10) None (scripted_conn [(4, Inl EOF)]) 5 [] =
     Some (EOF, scripted_conn [], 9, []) \<and>
   RunWithHandler (client_with_delay 10) (Some (cancelled_ctx 12)) None
       [attempt_dialing (Inr (scripted_conn [(4, Inl EOF)]))] 0 =
     Some (Canceled,
           \<lparr>clock = 12, logged = [ConnectionEnded EOF],
            used = [(scripted_conn [])\<lparr>closed := True\<rparr>]\<rparr>)"
proof -
  let ?c = "client_with_delay 10"
  let ?ctx = "cancelled_ctx 7"
  let ?a = "attempt_dialing (Inl (ErrorsNew ''temporary dial failure'')) :: string attempt"
  let ?b = "attempt_dialing (Inr (scripted_conn [(4, Inl EOF)]))"
  let ?st = "\<lparr>clock = 0, logged = [], used = []\<rparr> :: string run_state"
  have d: "ctx_done_at (cancelled_ctx tc) = Some (tc, Canceled)" for tc
    by (simp add: ctx_done_at_def cancelled_ctx_def)
  have c0: "ctx_Err ?ctx (clock ?st) = None" "ctx_Err (cancelled_ctx 12) (clock ?st) = None"
    by (simp_all add: ctx_Err_def d)
  have op: "snd (openConnection_result (attempt_dialing x)) = Inr ''ws://socket.example/connection''"
    "snd (Dial_result (attempt_dialing x)) = x" for x :: "go_error + string SocketModeConn"
    by (simp_all add: attempt_dialing_def)
  have le: "7 \<le> clock ?st + int (fst (openConnection_result ?a)) + int (fst (Dial_result ?a)) +
           max 0 (reconnectDelay ?c)"
    by (simp add: attempt_dialing_def client_with_delay_def)
  have w1h: "(7::int) \<le> 5 \<or> 7 < 5 + reconnectDelay ?c" by (simp add: client_with_delay_def)
  have w2h: "(7::int) \<le> 8 \<or> 7 < 8 + reconnectDelay (client_with_delay 0)" by simp
  from waitReconnect_returns_cancellation
    [where ctx = ?ctx and td = 7 and cerr = Canceled and t = 5 and c = ?c and timer_wins = True
       and st = ?st and a = ?a and socketURL = "''ws://socket.example/connection''"
       and dialErr = "ErrorsNew ''temporary dial failure''" and handler = None and rest = "[]"]
    d w1h c0 op le
  have w1: "waitReconnect ?c ?ctx 5 True = (Some Canceled, max 5 7)"
    and r: "map_option fst (RunWithHandler_loop ?c ?ctx None (?a # []) ?st) = Some Canceled"
    by blast+
  from waitReconnect_returns_cancellation
    [where ctx = ?ctx and td = 7 and cerr = Canceled and t = 8 and c = "client_with_delay 0"
       and timer_wins = True] d w2h
  have w2: "waitReconnect (client_with_delay 0) ?ctx 8 True = (Some Canceled, max 8 7)"
    by blast
  have run: "RunWithHandler_loop ?c ?ctx None [?a] ?st =
     Some (Canceled,
           \<lparr>clock = 7, logged = [DialFailed (ErrorsNew ''temporary dial failure'')], used = []\<rparr>)"
    using r
    by (simp add: RunWithHandler_loop.simps ctx_Err_def d attempt_dialing_def Let_def
          waitReconnect_def client_with_delay_def Printf_def)
  have cfg: "TrimSpace (appToken ?c) \<noteq> []" "baseURL_set ?c" "transport_set ?c" "dialer_set ?c"
    by (simp_all add: client_with_delay_def TrimSpace_def IsSpace_def)
  from run cfg have full: "RunWithHandler ?c (Some ?ctx) None [?a] 0 =
     Some (Canceled,
           \<lparr>clock = 7, logged = [DialFailed (ErrorsNew ''temporary dial failure'')], used = []\<rparr>)"
    by (simp add: RunWithHandler_def)
  have pc: "processConnection ?c None (scripted_conn [(4, Inl EOF)]) 5 [] =
     Some (EOF, scripted_conn [], 9, [])"
    by (simp add: processConnection.simps ReadJSON_def scripted_conn_def)
  then have pc': "processConnection ?c None (scripted_conn [(4, Inl EOF)])
        (clock ?st + int (fst (openConnection_result ?b)) + int (fst (Dial_result ?b)))
        (logged ?st) = Some (EOF, scripted_conn [], 9, [])"
    by (simp add: attempt_dialing_def)
  have ne: "\<not> errors_Is EOF Canceled" "\<not> errors_Is EOF DeadlineExceeded" by simp_all
  have le2: "(12::int) \<le> 9 + max 0 (reconnectDelay ?c)" by (simp add: client_with_delay_def)
  from waitReconnect_returns_cancellation
    [where ctx = "cancelled_ctx 12" and td = 12 and cerr = Canceled and c = ?c
       and st = ?st and a = ?b and socketURL = "''ws://socket.example/connection''"
       and conn = "scripted_conn [(4, Inl EOF)]" and handler = None and err = EOF
       and ?conn1.0 = "scripted_conn []" and ?t3.0 = 9 and ?log3.0 = "[]" and rest = "[]"]
    d c0 op pc' ne le2
  have r2: "map_option fst (RunWithHandler_loop ?c (cancelled_ctx 12) None (?b # []) ?st) =
      Some Canceled"
    by blast
  have run2: "RunWithHandler_loop ?c (cancelled_ctx 12) None [?b] ?st =
     Some (Canceled,
           \<lparr>clock = 12, logged = [ConnectionEnded EOF],
            used = [(scripted_conn [])\<lparr>closed := True\<rparr>]\<rparr>)"
    using r2 pc'
    by (simp add: RunWithHandler_loop.simps ctx_Err_def d op Let_def
          waitReconnect_def Printf_def) (simp add: client_with_delay_def)
  from run2 cfg have full2: "RunWithHandler ?c (Some (cancelled_ctx 12)) None [?b] 0 =
     Some (Canceled,
           \<lparr>clock = 12, logged = [ConnectionEnded EOF],
            used = [(scripted_conn [])\<lparr>closed := True\<rparr>]\<rparr>)"
    by (simp add: RunWithHandler_def)
  from d w1 w2 c0 full pc full2 show ?thesis by simp
qed

end
